theory Spec2Isabelle
  imports Complex_Main "HOL-Library.AList"
begin

section \<open>Data model (src/src/types/index.ts)\<close>

text \<open>
  A JavaScript \<^verbatim>\<open>Date\<close> is its \<^verbatim>\<open>getTime()\<close> value, an integer number of
  milliseconds. Every operation that reads the clock takes the reading as an argument.
  A \<^verbatim>\<open>Map<string, V>\<close> is an association list in insertion order with distinct keys:
  \<^verbatim>\<open>get\<close> is \<^const>\<open>map_of\<close>, \<^verbatim>\<open>set\<close> is \<^const>\<open>AList.update\<close> (an existing key
  keeps its place, a new key goes to the end) and \<^verbatim>\<open>delete\<close> is \<^const>\<open>AList.delete\<close>.
  Logger calls have no effect on the state and are left out.
\<close>

type_synonym date = int

datatype RobotStatus = IDLE | ASSIGNED | EN_ROUTE | DELIVERING | COMPLETED

datatype MissionStatus = created | assigned | in_progress | completed | cancelled

text \<open>
  The fields \<^verbatim>\<open>id\<close>, \<^verbatim>\<open>status\<close> and \<^verbatim>\<open>createdAt\<close> occur in both \<^verbatim>\<open>Mission\<close> and
  \<^verbatim>\<open>Robot\<close>; they carry the prefix of their owner here. An optional field
  (\<^verbatim>\<open>assignedAt?: Date\<close>) and a nullable one (\<^verbatim>\<open>string | null\<close>) are options.
\<close>

record Mission =
  mission_id :: string
  mission_status :: MissionStatus
  mission_createdAt :: date
  assignedAt :: "date option"
  startedAt :: "date option"
  completedAt :: "date option"
  cancelledAt :: "date option"
  robotId :: "string option"
  estimatedDuration :: int

text \<open>
  The errors of the source are all \<^verbatim>\<open>new Error(message)\<close>; they are told apart by the
  throw site: an unknown identifier, a transition refused in the current state, and a
  second \<^verbatim>\<open>start()\<close> of the engine.
\<close>

datatype error = NotFound | InvalidTransition | AlreadyRunning

datatype 'a result = Return 'a | Throw error

section \<open>Events\<close>

text \<open>
  The payload of an emitted event: \<^verbatim>\<open>{robotId, status, missionId}\<close> for a status
  change, \<^verbatim>\<open>{robotId, missionId}\<close> for a cancellation, nothing for the engine's
  lifecycle events. An event is the pair of its name and its payload.
\<close>

datatype event_data =
  StatusData string RobotStatus "string option"
| CancelData string "string option"
| NoData

type_synonym event = "string \<times> event_data"

text \<open>
  The callbacks that the core registers, one constructor per closure. On a robot:
  the two forwarders of \<^verbatim>\<open>FleetManager.initializeFleet\<close>. On the fleet manager: the two
  handlers of the \<^verbatim>\<open>SimulationEngine\<close> constructor. A table of listeners holds the
  pairs of event name and callback in the order of registration.
\<close>

datatype robot_listener =
  FleetForwardStatusChanged
| FleetForwardMissionCancelled

datatype fleet_listener =
  EngineOnRobotStatusChanged
| EngineOnRobotMissionCancelled

text \<open>Modelled from the spec: the class \<^verbatim>\<open>EventEmitter\<close> of
  \<^verbatim>\<open>@/utils/event-emitter\<close>, which \<^verbatim>\<open>Robot\<close>, \<^verbatim>\<open>FleetManager\<close> and
  \<^verbatim>\<open>SimulationEngine\<close> extend, is not among the sources. Following the notification
  fan-out that the specification describes (every notification is made synchronously,
  within the operation that causes it), \<^verbatim>\<open>on(name, f)\<close> appends the callback to the
  emitter's table (here) and \<^verbatim>\<open>emit(name, data)\<close> calls the callbacks registered under
  that name, in registration order (\<open>emit_all\<close> below). The specification does not say
  what becomes of an exception thrown by a callback; here it ends the \<^verbatim>\<open>emit\<close> and
  reaches its caller.
\<close>

definition on :: "string \<Rightarrow> 'l \<Rightarrow> (string \<times> 'l) list \<Rightarrow> (string \<times> 'l) list" where
  "on name f ls = ls @ [(name, f)]"

definition listenersFor :: "(string \<times> 'l) list \<Rightarrow> string \<Rightarrow> 'l list" where
  "listenersFor ls name = map snd (filter (\<lambda>p. fst p = name) ls)"

section \<open>Robot (src/src/core/robot.ts)\<close>

record Robot =
  robot_id :: string
  robot_status :: RobotStatus
  currentMissionId :: "string option"
  robot_createdAt :: date
  lastUpdated :: date
  robot_listeners :: "(string \<times> robot_listener) list"

text \<open>
  The constructor reads the clock for \<^verbatim>\<open>createdAt\<close> and again for \<^verbatim>\<open>lastUpdated\<close>;
  both readings are the one argument \<open>now\<close>.
\<close>

definition Robot_new :: "string \<Rightarrow> date \<Rightarrow> Robot" where
  "Robot_new i now =
     \<lparr>robot_id = i, robot_status = IDLE, currentMissionId = None,
      robot_createdAt = now, lastUpdated = now, robot_listeners = []\<rparr>"

definition updateTimestamp :: "date \<Rightarrow> Robot \<Rightarrow> Robot" where
  "updateTimestamp now r = r\<lparr>lastUpdated := now\<rparr>"

text \<open>
  A method of the robot returns its result, the robot after the call and the events it
  emits, in order. Every method finishes its writes before its first \<^verbatim>\<open>emit\<close>, so the
  robot returned is the robot that the listeners see.
\<close>

definition Robot_assignMission :: "Robot \<Rightarrow> Mission \<Rightarrow> date \<Rightarrow> bool \<times> Robot \<times> event list" where
  "Robot_assignMission r mission now =
     (if robot_status r \<noteq> IDLE then (False, r, [])
      else
        let r' = updateTimestamp now
                   (r\<lparr>robot_status := ASSIGNED, currentMissionId := Some (mission_id mission)\<rparr>)
        in (True, r',
            [(''statusChanged'',
              StatusData (robot_id r') (robot_status r') (Some (mission_id mission)))]))"

definition Robot_startMission :: "Robot \<Rightarrow> date \<Rightarrow> unit result \<times> Robot \<times> event list" where
  "Robot_startMission r now =
     (if robot_status r \<noteq> ASSIGNED then (Throw InvalidTransition, r, [])
      else
        let r' = updateTimestamp now (r\<lparr>robot_status := EN_ROUTE\<rparr>)
        in (Return (), r',
            [(''statusChanged'',
              StatusData (robot_id r') (robot_status r') (currentMissionId r'))]))"

definition Robot_startDelivering :: "Robot \<Rightarrow> date \<Rightarrow> unit result \<times> Robot \<times> event list" where
  "Robot_startDelivering r now =
     (if robot_status r \<noteq> EN_ROUTE then (Throw InvalidTransition, r, [])
      else
        let r' = updateTimestamp now (r\<lparr>robot_status := DELIVERING\<rparr>)
        in (Return (), r',
            [(''statusChanged'',
              StatusData (robot_id r') (robot_status r') (currentMissionId r'))]))"

definition Robot_completeMission :: "Robot \<Rightarrow> date \<Rightarrow> unit result \<times> Robot \<times> event list" where
  "Robot_completeMission r now =
     (if robot_status r \<noteq> DELIVERING then (Throw InvalidTransition, r, [])
      else
        let r' = updateTimestamp now (r\<lparr>robot_status := COMPLETED\<rparr>)
        in (Return (), r',
            [(''statusChanged'',
              StatusData (robot_id r') (robot_status r') (currentMissionId r'))]))"

definition Robot_returnToIdle :: "Robot \<Rightarrow> date \<Rightarrow> unit result \<times> Robot \<times> event list" where
  "Robot_returnToIdle r now =
     (if robot_status r \<noteq> COMPLETED then (Throw InvalidTransition, r, [])
      else
        let r' = updateTimestamp now (r\<lparr>robot_status := IDLE, currentMissionId := None\<rparr>)
        in (Return (), r',
            [(''statusChanged'', StatusData (robot_id r') (robot_status r') None)]))"

definition Robot_cancelCurrentMission :: "Robot \<Rightarrow> date \<Rightarrow> unit result \<times> Robot \<times> event list" where
  "Robot_cancelCurrentMission r now =
     (if robot_status r = IDLE then (Return (), r, [])
      else
        let cancelledMissionId = currentMissionId r;
            r' = updateTimestamp now (r\<lparr>robot_status := IDLE, currentMissionId := None\<rparr>)
        in (Return (), r',
            [(''missionCancelled'', CancelData (robot_id r') cancelledMissionId),
             (''statusChanged'', StatusData (robot_id r') (robot_status r') None)]))"

text \<open>
  A call made on a robot, with the clock reading of the call. \<open>robot_step\<close> is the robot
  after the call, whether it returned or threw: a caller that catches the exception goes
  on with that robot.
\<close>

datatype robot_op =
  AssignMission Mission
| StartMission
| StartDelivering
| CompleteMission
| ReturnToIdle
| CancelCurrentMission

fun robot_call :: "Robot \<Rightarrow> robot_op \<Rightarrow> date \<Rightarrow> unit result \<times> Robot \<times> event list" where
  "robot_call r (AssignMission m) now =
     (case Robot_assignMission r m now of (b, r', es) \<Rightarrow> (Return (), r', es))"
| "robot_call r StartMission now = Robot_startMission r now"
| "robot_call r StartDelivering now = Robot_startDelivering r now"
| "robot_call r CompleteMission now = Robot_completeMission r now"
| "robot_call r ReturnToIdle now = Robot_returnToIdle r now"
| "robot_call r CancelCurrentMission now = Robot_cancelCurrentMission r now"

definition robot_step :: "Robot \<Rightarrow> robot_op \<times> date \<Rightarrow> Robot" where
  "robot_step r c = fst (snd (robot_call r (fst c) (snd c)))"

definition robot_run :: "Robot \<Rightarrow> (robot_op \<times> date) list \<Rightarrow> Robot" where
  "robot_run r cs = foldl robot_step r cs"

definition robot_inv :: "Robot \<Rightarrow> bool" where
  "robot_inv r = ((robot_status r = IDLE) = (currentMissionId r = None))"

section \<open>TimeUtils (src/unnamed/part_006, imported as \<^verbatim>\<open>@/utils/time-utils\<close>)\<close>

text \<open>
  \<^verbatim>\<open>Math.floor(Math.random() * (max - min + 1)) + min\<close>, with the value drawn by
  \<^verbatim>\<open>Math.random()\<close> as the argument \<open>rnd\<close> and the product taken exactly.
\<close>

definition getRandomDuration :: "int \<Rightarrow> int \<Rightarrow> real \<Rightarrow> int" where
  "getRandomDuration mn mx rnd = \<lfloor>rnd * real_of_int (mx - mn + 1)\<rfloor> + mn"

section \<open>MissionManager (src/unnamed/part_008, imported as \<^verbatim>\<open>@/core/mission\<close>)\<close>

text \<open>The manager's state is its \<^verbatim>\<open>missions\<close> map.\<close>

type_synonym MissionManager = "(string \<times> Mission) list"

definition MISSION_DURATION_RANGE_MIN :: int where
  "MISSION_DURATION_RANGE_MIN = 3 * 60 * 1000"

definition MISSION_DURATION_RANGE_MAX :: int where
  "MISSION_DURATION_RANGE_MAX = 8 * 60 * 1000"

definition MissionManager_new :: MissionManager where
  "MissionManager_new = []"

text \<open>
  \<open>uuid\<close> is the string returned by \<^verbatim>\<open>uuidv4()\<close> and \<open>rnd\<close> the value drawn by
  \<^verbatim>\<open>Math.random()\<close>; \<^verbatim>\<open>slice(0, 8)\<close> keeps the first eight characters.
\<close>

definition createMission ::
  "MissionManager \<Rightarrow> string \<Rightarrow> real \<Rightarrow> date \<Rightarrow> Mission \<times> MissionManager" where
  "createMission ms uuid rnd now =
     (let mission =
            \<lparr>mission_id = ''mission-'' @ take 8 uuid,
             mission_status = created,
             mission_createdAt = now,
             assignedAt = None, startedAt = None, completedAt = None, cancelledAt = None,
             robotId = None,
             estimatedDuration =
               getRandomDuration MISSION_DURATION_RANGE_MIN MISSION_DURATION_RANGE_MAX rnd\<rparr>
      in (mission, AList.update (mission_id mission) mission ms))"

definition getMission :: "MissionManager \<Rightarrow> string \<Rightarrow> Mission option" where
  "getMission ms missionId = map_of ms missionId"

definition getAllMissions :: "MissionManager \<Rightarrow> Mission list" where
  "getAllMissions ms = map snd ms"

definition MissionManager_assignMission ::
  "MissionManager \<Rightarrow> string \<Rightarrow> string \<Rightarrow> date \<Rightarrow> unit result \<times> MissionManager" where
  "MissionManager_assignMission ms missionId rid now =
     (case map_of ms missionId of
        None \<Rightarrow> (Throw NotFound, ms)
      | Some mission \<Rightarrow>
          if mission_status mission \<noteq> created then (Throw InvalidTransition, ms)
          else (Return (),
                AList.update missionId
                  (mission\<lparr>mission_status := assigned, assignedAt := Some now,
                           robotId := Some rid\<rparr>) ms))"

definition MissionManager_startMission ::
  "MissionManager \<Rightarrow> string \<Rightarrow> date \<Rightarrow> unit result \<times> MissionManager" where
  "MissionManager_startMission ms missionId now =
     (case map_of ms missionId of
        None \<Rightarrow> (Throw NotFound, ms)
      | Some mission \<Rightarrow>
          if mission_status mission \<noteq> assigned then (Throw InvalidTransition, ms)
          else (Return (),
                AList.update missionId
                  (mission\<lparr>mission_status := in_progress, startedAt := Some now\<rparr>) ms))"

definition MissionManager_completeMission ::
  "MissionManager \<Rightarrow> string \<Rightarrow> date \<Rightarrow> unit result \<times> MissionManager" where
  "MissionManager_completeMission ms missionId now =
     (case map_of ms missionId of
        None \<Rightarrow> (Throw NotFound, ms)
      | Some mission \<Rightarrow>
          if mission_status mission \<noteq> in_progress then (Throw InvalidTransition, ms)
          else (Return (),
                AList.update missionId
                  (mission\<lparr>mission_status := completed, completedAt := Some now\<rparr>) ms))"

definition MissionManager_cancelMission ::
  "MissionManager \<Rightarrow> string \<Rightarrow> date \<Rightarrow> unit result \<times> MissionManager" where
  "MissionManager_cancelMission ms missionId now =
     (case map_of ms missionId of
        None \<Rightarrow> (Throw NotFound, ms)
      | Some mission \<Rightarrow>
          if mission_status mission = completed \<or> mission_status mission = cancelled
          then (Return (), ms)
          else (Return (),
                AList.update missionId
                  (mission\<lparr>mission_status := cancelled, cancelledAt := Some now\<rparr>) ms))"

text \<open>
  The test of the cleanup loop, and the loop itself: it walks the entries of the map and
  deletes the entry it stands on, so the entries still to come are those of the map as it
  was when the loop began.
\<close>

definition expired :: "int \<Rightarrow> Mission \<Rightarrow> bool" where
  "expired cutoffTime mission =
     ((mission_status mission = completed \<or> mission_status mission = cancelled) \<and>
      mission_createdAt mission < cutoffTime)"

fun cleanup_loop ::
  "(string \<times> Mission) list \<Rightarrow> int \<Rightarrow> MissionManager \<Rightarrow> nat \<Rightarrow> nat \<times> MissionManager" where
  "cleanup_loop [] cutoffTime ms cleanedCount = (cleanedCount, ms)"
| "cleanup_loop ((missionId, mission) # es) cutoffTime ms cleanedCount =
     (if expired cutoffTime mission
      then cleanup_loop es cutoffTime (AList.delete missionId ms) (cleanedCount + 1)
      else cleanup_loop es cutoffTime ms cleanedCount)"

definition cleanupCompletedMissions ::
  "MissionManager \<Rightarrow> int \<Rightarrow> date \<Rightarrow> nat \<times> MissionManager" where
  "cleanupCompletedMissions ms olderThanMs now =
     (let cutoffTime = now - olderThanMs in cleanup_loop ms cutoffTime ms 0)"

text \<open>
  A call made on the mission manager, with the clock reading of the call, and the
  registry after a list of calls; a call that throws leaves the registry as it was and
  the next call goes on from there.
\<close>

datatype mission_op =
  CreateMission string real
| AssignMissionTo string string
| StartMissionOf string
| CompleteMissionOf string
| CancelMissionOf string

fun mission_step :: "MissionManager \<Rightarrow> mission_op \<times> date \<Rightarrow> MissionManager" where
  "mission_step ms (CreateMission uuid rnd, now) = snd (createMission ms uuid rnd now)"
| "mission_step ms (AssignMissionTo missionId rid, now) =
     snd (MissionManager_assignMission ms missionId rid now)"
| "mission_step ms (StartMissionOf missionId, now) =
     snd (MissionManager_startMission ms missionId now)"
| "mission_step ms (CompleteMissionOf missionId, now) =
     snd (MissionManager_completeMission ms missionId now)"
| "mission_step ms (CancelMissionOf missionId, now) =
     snd (MissionManager_cancelMission ms missionId now)"

definition mission_run :: "MissionManager \<Rightarrow> (mission_op \<times> date) list \<Rightarrow> MissionManager" where
  "mission_run ms cs = foldl mission_step ms cs"

section \<open>Mission registry: the invariant that the code keeps\<close>

text \<open>
  What holds of a mission between its status and its \<^verbatim>\<open>robotId\<close>: an assigned or
  running mission has a robot, and a mission that has a robot is no longer \<open>created\<close>.
\<close>

definition mission_inv :: "Mission \<Rightarrow> bool" where
  "mission_inv m =
     ((mission_status m = assigned \<or> mission_status m = in_progress \<longrightarrow> robotId m \<noteq> None) \<and>
      (robotId m \<noteq> None \<longrightarrow> mission_status m \<noteq> created))"

definition registry_inv :: "MissionManager \<Rightarrow> bool" where
  "registry_inv ms = list_all (\<lambda>e. mission_inv (snd e)) ms"

section \<open>FleetManager (src/unnamed/part_009, imported as \<^verbatim>\<open>./fleet-manager\<close>)\<close>

text \<open>
  The manager is itself an emitter: its state is the \<^verbatim>\<open>robots\<close> map and its table of
  listeners.
\<close>

record FleetManager =
  robots :: "(string \<times> Robot) list"
  fleet_listeners :: "(string \<times> fleet_listener) list"

definition FleetManager_new :: FleetManager where
  "FleetManager_new = \<lparr>robots = [], fleet_listeners = []\<rparr>"

text \<open>
  \<^verbatim>\<open>i.toString()\<close> of a non-negative integer is its decimal notation (JavaScript switches
  to exponent notation from \<open>10\<^sup>2\<^sup>1\<close> on, far beyond any fleet that fits in memory), and
  \<^verbatim>\<open>padStart(3, '0')\<close> fills up to three characters from the left.
\<close>

fun toString :: "nat \<Rightarrow> string" where
  "toString n =
     (if n < 10 then [''0123456789'' ! n]
      else toString (n div 10) @ [''0123456789'' ! (n mod 10)])"

declare toString.simps [simp del]

definition padStart :: "nat \<Rightarrow> char \<Rightarrow> string \<Rightarrow> string" where
  "padStart targetLength c s = replicate (targetLength - length s) c @ s"

text \<open>The identifier that the loop of \<^verbatim>\<open>initializeFleet\<close> builds in its \<open>i\<close>-th round.\<close>

definition fleet_robotId :: "nat \<Rightarrow> string" where
  "fleet_robotId i = ''robot-'' @ padStart 3 CHR ''0'' (toString i)"

text \<open>
  One round of the loop: a new robot, the two forwarders registered on it, and
  \<^verbatim>\<open>robots.set\<close>. \<open>clock i\<close> is the clock reading in round \<open>i\<close>. The loop runs for
  \<open>i = 1, \<dots>, robotCount\<close>.
\<close>

definition initializeFleet_round ::
  "(nat \<Rightarrow> date) \<Rightarrow> (string \<times> Robot) list \<Rightarrow> nat \<Rightarrow> (string \<times> Robot) list" where
  "initializeFleet_round clock rs i =
     (let robotId = fleet_robotId i;
          robot = Robot_new robotId (clock i);
          robot = robot\<lparr>robot_listeners :=
                    on ''statusChanged'' FleetForwardStatusChanged (robot_listeners robot)\<rparr>;
          robot = robot\<lparr>robot_listeners :=
                    on ''missionCancelled'' FleetForwardMissionCancelled (robot_listeners robot)\<rparr>
      in AList.update robotId robot rs)"

definition initializeFleet :: "FleetManager \<Rightarrow> nat \<Rightarrow> (nat \<Rightarrow> date) \<Rightarrow> FleetManager" where
  "initializeFleet fm robotCount clock =
     fm\<lparr>robots := foldl (initializeFleet_round clock) (robots fm) [1..<Suc robotCount]\<rparr>"

definition getAllRobots :: "FleetManager \<Rightarrow> Robot list" where
  "getAllRobots fm = map snd (robots fm)"

definition getRobot :: "FleetManager \<Rightarrow> string \<Rightarrow> Robot option" where
  "getRobot fm rid = map_of (robots fm) rid"

text \<open>
  The robots of the result are objects of the map; each comes with the key under which
  the map holds it, which stands for the reference to the object.
\<close>

definition getAvailableRobots :: "FleetManager \<Rightarrow> (string \<times> Robot) list" where
  "getAvailableRobots fm = filter (\<lambda>e. robot_status (snd e) = IDLE) (robots fm)"

definition assignMissionToAvailableRobot ::
  "FleetManager \<Rightarrow> Mission \<Rightarrow> date \<Rightarrow> Robot option \<times> FleetManager \<times> event list" where
  "assignMissionToAvailableRobot fm mission now =
     (case getAvailableRobots fm of
        [] \<Rightarrow> (None, fm, [])
      | (ref, selectedRobot) # _ \<Rightarrow>
          (case Robot_assignMission selectedRobot mission now of
             (ok, r', es) \<Rightarrow>
               (if ok then Some r' else None,
                fm\<lparr>robots := AList.update ref r' (robots fm)\<rparr>, es)))"

definition cancelRobotMission ::
  "FleetManager \<Rightarrow> string \<Rightarrow> date \<Rightarrow> bool \<times> FleetManager \<times> event list" where
  "cancelRobotMission fm rid now =
     (case map_of (robots fm) rid of
        None \<Rightarrow> (False, fm, [])
      | Some robot \<Rightarrow>
          (case Robot_cancelCurrentMission robot now of
             (_, r', es) \<Rightarrow> (True, fm\<lparr>robots := AList.update rid r' (robots fm)\<rparr>, es)))"

text \<open>
  A call made on the fleet manager (\<^verbatim>\<open>on\<close>, inherited from the emitter, included)
  or, through \<^verbatim>\<open>getRobot\<close>, on one of its robots, and the manager after a list of
  calls. The events go to the listeners; none of the listeners of the repository calls
  back into the fleet, so the manager after the call does not depend on them.
\<close>

datatype fleet_op =
  InitializeFleet nat "nat \<Rightarrow> date"
| AssignMissionToAvailableRobot Mission
| CancelRobotMission string
| RobotCall string robot_op
| FleetOn string fleet_listener

fun fleet_step :: "FleetManager \<Rightarrow> fleet_op \<times> date \<Rightarrow> FleetManager" where
  "fleet_step fm (InitializeFleet robotCount clock, now) = initializeFleet fm robotCount clock"
| "fleet_step fm (AssignMissionToAvailableRobot mission, now) =
     fst (snd (assignMissionToAvailableRobot fm mission now))"
| "fleet_step fm (CancelRobotMission rid, now) = fst (snd (cancelRobotMission fm rid now))"
| "fleet_step fm (RobotCall rid c, now) =
     (case getRobot fm rid of
        None \<Rightarrow> fm
      | Some robot \<Rightarrow> fm\<lparr>robots := AList.update rid (robot_step robot (c, now)) (robots fm)\<rparr>)"
| "fleet_step fm (FleetOn name f, now) = fm\<lparr>fleet_listeners := on name f (fleet_listeners fm)\<rparr>"

definition fleet_run :: "FleetManager \<Rightarrow> (fleet_op \<times> date) list \<Rightarrow> FleetManager" where
  "fleet_run fm cs = foldl fleet_step fm cs"

text \<open>
  Reading a decimal numeral back, and the number in a robot identifier: used to tell the
  identifiers of different rounds apart.
\<close>

definition digitValue :: "char \<Rightarrow> nat" where
  "digitValue c = of_char c - 48"

definition parseDecimal :: "string \<Rightarrow> nat" where
  "parseDecimal s = foldl (\<lambda>a c. 10 * a + digitValue c) 0 s"

definition robotNumber :: "string \<Rightarrow> nat" where
  "robotNumber s = parseDecimal (drop 6 s)"

text \<open>
  The shape of the \<^verbatim>\<open>robots\<close> map: its keys are the identifiers of the rounds
  \<open>1, \<dots>, n\<close> in that order, and every robot is stored under its own identifier.
\<close>

definition fleet_keys :: "FleetManager \<Rightarrow> nat \<Rightarrow> bool" where
  "fleet_keys fm n = (map fst (robots fm) = map fleet_robotId [1..<Suc n])"

definition fleet_inv :: "FleetManager \<Rightarrow> bool" where
  "fleet_inv fm =
     (fleet_keys fm (length (robots fm)) \<and>
      list_all (\<lambda>e. robot_id (snd e) = fst e) (robots fm))"

text \<open>The robot that round \<open>i\<close> of \<^verbatim>\<open>initializeFleet\<close> stores.\<close>

definition roundRobot :: "(nat \<Rightarrow> date) \<Rightarrow> nat \<Rightarrow> Robot" where
  "roundRobot clock i =
     \<lparr>robot_id = fleet_robotId i, robot_status = IDLE, currentMissionId = None,
      robot_createdAt = clock i, lastUpdated = clock i,
      robot_listeners = [(''statusChanged'', FleetForwardStatusChanged),
                         (''missionCancelled'', FleetForwardMissionCancelled)]\<rparr>"

section \<open>SimulationEngine (src/src/core/simulation-engine.ts)\<close>

text \<open>
  The engine's own fields. A timer handle returned by \<^verbatim>\<open>setInterval\<close> is the period it
  was armed with; \<^verbatim>\<open>null\<close> is \<open>None\<close>.
\<close>

record SimulationEngine =
  isSimulationRunning :: bool
  missionGenerationTimer :: "nat option"
  stateTransitionTimer :: "nat option"
  cleanupTimer :: "nat option"

definition MISSION_GENERATION_INTERVAL :: nat where
  "MISSION_GENERATION_INTERVAL = 60 * 1000"

definition STATE_TRANSITION_INTERVAL :: nat where
  "STATE_TRANSITION_INTERVAL = 10 * 1000"

definition CLEANUP_INTERVAL :: nat where
  "CLEANUP_INTERVAL = 5 * 60 * 1000"

definition SimulationEngine_start ::
  "SimulationEngine \<Rightarrow> unit result \<times> SimulationEngine \<times> event list" where
  "SimulationEngine_start e =
     (if isSimulationRunning e then (Throw AlreadyRunning, e, [])
      else (Return (),
            e\<lparr>isSimulationRunning := True,
              missionGenerationTimer := Some MISSION_GENERATION_INTERVAL,
              stateTransitionTimer := Some STATE_TRANSITION_INTERVAL,
              cleanupTimer := Some CLEANUP_INTERVAL\<rparr>,
            [(''simulationStarted'', NoData)]))"

definition SimulationEngine_stop ::
  "SimulationEngine \<Rightarrow> unit result \<times> SimulationEngine \<times> event list" where
  "SimulationEngine_stop e =
     (if \<not> isSimulationRunning e then (Return (), e, [])
      else (Return (),
            e\<lparr>isSimulationRunning := False,
              missionGenerationTimer :=
                (if missionGenerationTimer e \<noteq> None then None else missionGenerationTimer e),
              stateTransitionTimer :=
                (if stateTransitionTimer e \<noteq> None then None else stateTransitionTimer e),
              cleanupTimer :=
                (if cleanupTimer e \<noteq> None then None else cleanupTimer e)\<rparr>,
            [(''simulationStopped'', NoData)]))"

definition isRunning :: "SimulationEngine \<Rightarrow> bool" where
  "isRunning e = isSimulationRunning e"

text \<open>
  The objects that the engine's constructor ties together: the two managers it is given,
  the engine's fields, and the events the engine has emitted so far (its own listeners
  belong to the transport layer).
\<close>

record System =
  fleetManager :: FleetManager
  missionManager :: MissionManager
  engine :: SimulationEngine
  emitted :: "event list"

text \<open>The constructor registers the engine's two handlers on the fleet manager.\<close>

definition SimulationEngine_new :: "FleetManager \<Rightarrow> MissionManager \<Rightarrow> System" where
  "SimulationEngine_new fm mm =
     \<lparr>fleetManager =
        fm\<lparr>fleet_listeners :=
             on ''robotMissionCancelled'' EngineOnRobotMissionCancelled
               (on ''robotStatusChanged'' EngineOnRobotStatusChanged (fleet_listeners fm))\<rparr>,
      missionManager = mm,
      engine = \<lparr>isSimulationRunning = False, missionGenerationTimer = None,
                stateTransitionTimer = None, cleanupTimer = None\<rparr>,
      emitted = []\<rparr>"

definition engine_emit :: "event \<Rightarrow> System \<Rightarrow> System" where
  "engine_emit ev s = s\<lparr>emitted := emitted s @ [ev]\<rparr>"

text \<open>The \<^verbatim>\<open>missionId\<close> property of a payload; a payload without it yields \<^verbatim>\<open>undefined\<close>.\<close>

fun data_missionId :: "event_data \<Rightarrow> string option" where
  "data_missionId (StatusData rid st mid) = mid"
| "data_missionId (CancelData rid mid) = mid"
| "data_missionId NoData = None"

text \<open>
  The bodies of the engine's two handlers. \<^verbatim>\<open>missions.get\<close> of \<^verbatim>\<open>null\<close> finds
  nothing, so \<^verbatim>\<open>cancelMission(null)\<close> throws its not-found error. The clock reading of
  the call that emitted the event serves for the \<^verbatim>\<open>new Date()\<close> of \<^verbatim>\<open>cancelMission\<close>.
\<close>

fun fleet_listener_call ::
  "fleet_listener \<Rightarrow> event_data \<Rightarrow> date \<Rightarrow> System \<Rightarrow> unit result \<times> System" where
  "fleet_listener_call EngineOnRobotStatusChanged dat now s =
     (Return (), engine_emit (''robotStatusChanged'', dat) s)"
| "fleet_listener_call EngineOnRobotMissionCancelled dat now s =
     (case data_missionId dat of
        None \<Rightarrow> (Throw NotFound, s)
      | Some missionId \<Rightarrow>
          (case MissionManager_cancelMission (missionManager s) missionId now of
             (Throw err, mm') \<Rightarrow> (Throw err, s\<lparr>missionManager := mm'\<rparr>)
           | (Return u, mm') \<Rightarrow>
               (Return (), engine_emit (''missionCancelled'', dat) (s\<lparr>missionManager := mm'\<rparr>))))"

text \<open>Modelled from the spec: \<^verbatim>\<open>EventEmitter.emit\<close> (not among the sources) calls
  the callbacks in turn; the first that throws ends the round.
\<close>

fun emit_all ::
  "('l \<Rightarrow> event_data \<Rightarrow> date \<Rightarrow> System \<Rightarrow> unit result \<times> System) \<Rightarrow> 'l list \<Rightarrow>
   event_data \<Rightarrow> date \<Rightarrow> System \<Rightarrow> unit result \<times> System" where
  "emit_all call [] dat now s = (Return (), s)"
| "emit_all call (l # ls) dat now s =
     (case call l dat now s of
        (Throw err, s') \<Rightarrow> (Throw err, s')
      | (Return u, s') \<Rightarrow> emit_all call ls dat now s')"

definition fleet_emit :: "event \<Rightarrow> date \<Rightarrow> System \<Rightarrow> unit result \<times> System" where
  "fleet_emit ev now s =
     emit_all fleet_listener_call
       (listenersFor (fleet_listeners (fleetManager s)) (fst ev)) (snd ev) now s"

fun robot_listener_call ::
  "robot_listener \<Rightarrow> event_data \<Rightarrow> date \<Rightarrow> System \<Rightarrow> unit result \<times> System" where
  "robot_listener_call FleetForwardStatusChanged dat now s =
     fleet_emit (''robotStatusChanged'', dat) now s"
| "robot_listener_call FleetForwardMissionCancelled dat now s =
     fleet_emit (''robotMissionCancelled'', dat) now s"

definition robot_emit :: "Robot \<Rightarrow> event \<Rightarrow> date \<Rightarrow> System \<Rightarrow> unit result \<times> System" where
  "robot_emit r ev now s =
     emit_all robot_listener_call (listenersFor (robot_listeners r) (fst ev)) (snd ev) now s"

text \<open>
  The \<^verbatim>\<open>emit\<close> calls of one method of robot \<open>r\<close>, in the order the method makes them;
  an exception from a listener leaves the method, and the later calls are not made.
\<close>

fun robot_emits :: "Robot \<Rightarrow> event list \<Rightarrow> date \<Rightarrow> System \<Rightarrow> unit result \<times> System" where
  "robot_emits r [] now s = (Return (), s)"
| "robot_emits r (ev # evs) now s =
     (case robot_emit r ev now s of
        (Throw err, s') \<Rightarrow> (Throw err, s')
      | (Return u, s') \<Rightarrow> robot_emits r evs now s')"

text \<open>
  \<^verbatim>\<open>fleetManager.cancelRobotMission(robotId)\<close> with the listeners at work: the writes of
  the robot come first, then its events reach the fleet manager and the engine. If a
  listener throws, the exception passes through \<^verbatim>\<open>cancelCurrentMission\<close> and
  \<^verbatim>\<open>cancelRobotMission\<close> to the caller, and the return value is lost.
\<close>

definition System_cancelRobotMission :: "System \<Rightarrow> string \<Rightarrow> date \<Rightarrow> bool result \<times> System" where
  "System_cancelRobotMission s rid now =
     (case cancelRobotMission (fleetManager s) rid now of
        (ret, fm', es) \<Rightarrow>
          (case getRobot fm' rid of
             None \<Rightarrow> (Return ret, s\<lparr>fleetManager := fm'\<rparr>)
           | Some r' \<Rightarrow>
               (case robot_emits r' es now (s\<lparr>fleetManager := fm'\<rparr>) of
                  (Throw err, s') \<Rightarrow> (Throw err, s')
                | (Return u, s') \<Rightarrow> (Return ret, s'))))"

section \<open>Example values\<close>

text \<open>Concrete missions and fleets at which the theorems below are instantiated.\<close>

abbreviation example_mission_a :: Mission where
  "example_mission_a \<equiv>
     \<lparr>mission_id = ''mission-0000000a'', mission_status = created, mission_createdAt = 1000,
      assignedAt = None, startedAt = None, completedAt = None, cancelledAt = None,
      robotId = None, estimatedDuration = 300000\<rparr>"

abbreviation example_mission_b :: Mission where
  "example_mission_b \<equiv>
     \<lparr>mission_id = ''mission-0000000b'', mission_status = created, mission_createdAt = 1000,
      assignedAt = None, startedAt = None, completedAt = None, cancelledAt = None,
      robotId = None, estimatedDuration = 300000\<rparr>"

abbreviation example_fleet :: FleetManager where
  "example_fleet \<equiv>
     fleet_run FleetManager_new
       [(InitializeFleet 3 (\<lambda>i. 1000), 1000),
        (AssignMissionToAvailableRobot example_mission_a, 2000)]"

abbreviation example_busy_fleet :: FleetManager where
  "example_busy_fleet \<equiv>
     fleet_run FleetManager_new
       [(InitializeFleet 1 (\<lambda>i. 1000), 1000),
        (AssignMissionToAvailableRobot example_mission_a, 2000)]"

abbreviation example_mission_c :: Mission where
  "example_mission_c \<equiv>
     \<lparr>mission_id = ''mission-0000000c'', mission_status = created, mission_createdAt = 1000,
      assignedAt = None, startedAt = None, completedAt = None, cancelledAt = None,
      robotId = None, estimatedDuration = 300000\<rparr>"

abbreviation example_assigned_fleet :: FleetManager where
  "example_assigned_fleet \<equiv>
     fleet_run FleetManager_new
       [(InitializeFleet 3 (\<lambda>i. 1000), 1000),
        (AssignMissionToAvailableRobot example_mission_a, 2000),
        (AssignMissionToAvailableRobot example_mission_b, 2000),
        (AssignMissionToAvailableRobot example_mission_c, 2000)]"

abbreviation example_created :: "Mission \<times> MissionManager" where
  "example_created \<equiv>
     createMission MissionManager_new ''0000000a-58cc-4372-a567-0e02b2c3d479'' 0 1500"

abbreviation example_wired_fleet :: FleetManager where
  "example_wired_fleet \<equiv>
     fleet_run (fleetManager (SimulationEngine_new FleetManager_new MissionManager_new))
       [(InitializeFleet 1 (\<lambda>i. 1000), 1000),
        (AssignMissionToAvailableRobot (fst example_created), 2000),
        (RobotCall ''robot-001'' StartMission, 3000),
        (RobotCall ''robot-001'' StartDelivering, 4000)]"

abbreviation example_system_in_progress :: System where
  "example_system_in_progress \<equiv>
     (SimulationEngine_new FleetManager_new MissionManager_new)
       \<lparr>fleetManager := example_wired_fleet,
        missionManager :=
          mission_run (snd example_created)
            [(AssignMissionTo ''mission-0000000a'' ''robot-001'', 2000),
             (StartMissionOf ''mission-0000000a'', 3000)]\<rparr>"

abbreviation example_system_completed :: System where
  "example_system_completed \<equiv>
     (SimulationEngine_new FleetManager_new MissionManager_new)
       \<lparr>fleetManager := example_wired_fleet,
        missionManager :=
          mission_run (snd example_created)
            [(AssignMissionTo ''mission-0000000a'' ''robot-001'', 2000),
             (StartMissionOf ''mission-0000000a'', 3000),
             (CompleteMissionOf ''mission-0000000a'', 4500)]\<rparr>"

section \<open>Robot: the binding invariant\<close>

lemma robot_inv_new: "robot_inv (Robot_new i now)"
  by (simp add: robot_inv_def Robot_new_def)

lemma robot_inv_step: "robot_inv r \<Longrightarrow> robot_inv (robot_step r c)"
  by (cases c, cases "fst c")
     (auto simp: robot_inv_def robot_step_def Robot_assignMission_def Robot_startMission_def
        Robot_startDelivering_def Robot_completeMission_def Robot_returnToIdle_def
        Robot_cancelCurrentMission_def updateTimestamp_def Let_def)

lemma robot_inv_run: "robot_inv r \<Longrightarrow> robot_inv (robot_run r cs)"
  unfolding robot_run_def
  by (induction cs arbitrary: r) (simp_all add: robot_inv_step)

text \<open>
  C1. Whatever calls of \<^verbatim>\<open>assignMission\<close>, \<^verbatim>\<open>startMission\<close>, \<^verbatim>\<open>startDelivering\<close>,
  \<^verbatim>\<open>completeMission\<close>, \<^verbatim>\<open>returnToIdle\<close> and \<^verbatim>\<open>cancelCurrentMission\<close> are made, in
  any order and at any times, on a robot that the constructor has just created, the
  robot's status is IDLE exactly when its \<^verbatim>\<open>currentMissionId\<close> is null.
\<close>

theorem C1_robot_idle_iff_no_mission:
  "(robot_status (robot_run (Robot_new i t0) cs) = IDLE) =
   (currentMissionId (robot_run (Robot_new i t0) cs) = None)"
  using robot_inv_run [OF robot_inv_new, of i t0 cs]
  by (simp add: robot_inv_def)

section \<open>Mission registry: status and robot\<close>

lemma registry_inv_update:
  "registry_inv ms \<Longrightarrow> mission_inv v \<Longrightarrow> registry_inv (AList.update k v ms)"
  unfolding registry_inv_def by (induction ms) auto

lemma registry_inv_lookup:
  "registry_inv ms \<Longrightarrow> map_of ms k = Some m \<Longrightarrow> mission_inv m"
  unfolding registry_inv_def by (auto simp: list_all_iff dest!: map_of_SomeD)

lemma registry_inv_create: "registry_inv ms \<Longrightarrow> registry_inv (snd (createMission ms uuid rnd now))"
  by (simp add: createMission_def Let_def registry_inv_update mission_inv_def)

lemma registry_inv_assign:
  "registry_inv ms \<Longrightarrow> registry_inv (snd (MissionManager_assignMission ms k rid now))"
  by (simp add: MissionManager_assignMission_def registry_inv_update mission_inv_def
      split: option.splits)

lemma registry_inv_start:
  assumes "registry_inv ms"
  shows "registry_inv (snd (MissionManager_startMission ms k now))"
proof (cases "map_of ms k")
  case None
  with assms show ?thesis by (simp add: MissionManager_startMission_def)
next
  case (Some m)
  from registry_inv_lookup [OF assms Some]
  have "mission_status m = assigned \<Longrightarrow>
        mission_inv (m\<lparr>mission_status := in_progress, startedAt := Some now\<rparr>)"
    by (simp add: mission_inv_def)
  with assms Some show ?thesis
    by (simp add: MissionManager_startMission_def registry_inv_update)
qed

lemma registry_inv_complete:
  assumes "registry_inv ms"
  shows "registry_inv (snd (MissionManager_completeMission ms k now))"
proof (cases "map_of ms k")
  case None
  with assms show ?thesis by (simp add: MissionManager_completeMission_def)
next
  case (Some m)
  from registry_inv_lookup [OF assms Some]
  have "mission_status m = in_progress \<Longrightarrow>
        mission_inv (m\<lparr>mission_status := completed, completedAt := Some now\<rparr>)"
    by (simp add: mission_inv_def)
  with assms Some show ?thesis
    by (simp add: MissionManager_completeMission_def registry_inv_update)
qed

lemma registry_inv_cancel:
  assumes "registry_inv ms"
  shows "registry_inv (snd (MissionManager_cancelMission ms k now))"
proof (cases "map_of ms k")
  case None
  with assms show ?thesis by (simp add: MissionManager_cancelMission_def)
next
  case (Some m)
  from registry_inv_lookup [OF assms Some]
  have "mission_inv (m\<lparr>mission_status := cancelled, cancelledAt := Some now\<rparr>)"
    by (simp add: mission_inv_def)
  with assms Some show ?thesis
    by (simp add: MissionManager_cancelMission_def registry_inv_update)
qed

lemma registry_inv_step: "registry_inv ms \<Longrightarrow> registry_inv (mission_step ms c)"
  by (cases "(ms, c)" rule: mission_step.cases)
     (simp_all add: registry_inv_create registry_inv_assign registry_inv_start
        registry_inv_complete registry_inv_cancel)

lemma registry_inv_run: "registry_inv ms \<Longrightarrow> registry_inv (mission_run ms cs)"
  unfolding mission_run_def
  by (induction cs arbitrary: ms) (simp_all add: registry_inv_step)

text \<open>
  C3 as stated fails: \<^verbatim>\<open>cancelMission\<close> (and \<^verbatim>\<open>completeMission\<close>) leave \<^verbatim>\<open>robotId\<close> as
  it is. After create, assign and cancel the mission is \<open>cancelled\<close> and still carries
  the robot it was assigned to.
\<close>

theorem C3_counterexample:
  "map_option mission_status
     (getMission
        (mission_run MissionManager_new
           [(CreateMission ''3f2a9c1e-58cc-4372-a567-0e02b2c3d479'' 0, 1000),
            (AssignMissionTo ''mission-3f2a9c1e'' ''robot-001'', 2000),
            (CancelMissionOf ''mission-3f2a9c1e'', 3000)])
        ''mission-3f2a9c1e'') = Some cancelled \<and>
   map_option robotId
     (getMission
        (mission_run MissionManager_new
           [(CreateMission ''3f2a9c1e-58cc-4372-a567-0e02b2c3d479'' 0, 1000),
            (AssignMissionTo ''mission-3f2a9c1e'' ''robot-001'', 2000),
            (CancelMissionOf ''mission-3f2a9c1e'', 3000)])
        ''mission-3f2a9c1e'') = Some (Some ''robot-001'')"
  by (simp add: Let_def mission_run_def MissionManager_new_def createMission_def getMission_def
      MissionManager_assignMission_def MissionManager_cancelMission_def)

text \<open>
  C3, amended. After any sequence of \<^verbatim>\<open>createMission\<close>, \<^verbatim>\<open>assignMission\<close>,
  \<^verbatim>\<open>startMission\<close>, \<^verbatim>\<open>completeMission\<close> and \<^verbatim>\<open>cancelMission\<close> calls on a new
  manager, every mission of the registry whose status is \<open>assigned\<close> or \<open>in_progress\<close>
  has a non-null \<^verbatim>\<open>robotId\<close>, and every mission with a non-null \<^verbatim>\<open>robotId\<close> has left
  the status \<open>created\<close> (it is assigned, in progress, completed or cancelled).
\<close>

theorem C3_status_robotId:
  assumes "m \<in> set (getAllMissions (mission_run MissionManager_new cs))"
  shows "(mission_status m = assigned \<or> mission_status m = in_progress \<longrightarrow> robotId m \<noteq> None) \<and>
         (robotId m \<noteq> None \<longrightarrow> mission_status m \<noteq> created)"
proof -
  have "registry_inv MissionManager_new"
    by (simp add: registry_inv_def MissionManager_new_def)
  then have "registry_inv (mission_run MissionManager_new cs)"
    by (rule registry_inv_run)
  with assms have "mission_inv m"
    by (auto simp: registry_inv_def getAllMissions_def list_all_iff)
  then show ?thesis by (simp add: mission_inv_def)
qed

theorem C3_status_robotId_witness:
  "\<lparr>mission_id = ''mission-3f2a9c1e'', mission_status = in_progress, mission_createdAt = 1000,
     assignedAt = Some 2000, startedAt = Some 3000, completedAt = None, cancelledAt = None,
     robotId = Some ''robot-001'', estimatedDuration = 180000\<rparr>
   \<in> set (getAllMissions
        (mission_run MissionManager_new
           [(CreateMission ''3f2a9c1e-58cc-4372-a567-0e02b2c3d479'' 0, 1000),
            (AssignMissionTo ''mission-3f2a9c1e'' ''robot-001'', 2000),
            (StartMissionOf ''mission-3f2a9c1e'', 3000)])) \<and>
   robotId \<lparr>mission_id = ''mission-3f2a9c1e'', mission_status = in_progress, mission_createdAt = 1000,
     assignedAt = Some 2000, startedAt = Some 3000, completedAt = None, cancelledAt = None,
     robotId = Some ''robot-001'', estimatedDuration = 180000\<rparr> \<noteq> None"
  using C3_status_robotId [of
     "\<lparr>mission_id = ''mission-3f2a9c1e'', mission_status = in_progress, mission_createdAt = 1000,
       assignedAt = Some 2000, startedAt = Some 3000, completedAt = None, cancelledAt = None,
       robotId = Some ''robot-001'', estimatedDuration = 180000\<rparr>"
     "[(CreateMission ''3f2a9c1e-58cc-4372-a567-0e02b2c3d479'' 0, 1000),
       (AssignMissionTo ''mission-3f2a9c1e'' ''robot-001'', 2000),
       (StartMissionOf ''mission-3f2a9c1e'', 3000)]"]
  by (simp add: Let_def mission_run_def MissionManager_new_def createMission_def getAllMissions_def
      MissionManager_assignMission_def MissionManager_startMission_def getRandomDuration_def
      MISSION_DURATION_RANGE_MIN_def MISSION_DURATION_RANGE_MAX_def)

section \<open>Cancellation that finds nothing to cancel\<close>

text \<open>
  C4. \<^verbatim>\<open>cancelCurrentMission\<close> on an IDLE robot returns normally, emits nothing and
  leaves the robot, with every field, as it was; \<^verbatim>\<open>cancelMission\<close> on a mission that is
  \<open>completed\<close> or \<open>cancelled\<close> returns normally and leaves the whole registry, that
  mission included, as it was.
\<close>

theorem C4_idempotent_cancellation:
  "(robot_status r = IDLE \<longrightarrow> Robot_cancelCurrentMission r now = (Return (), r, [])) \<and>
   (map_of ms missionId = Some mission \<and>
    (mission_status mission = completed \<or> mission_status mission = cancelled) \<longrightarrow>
      MissionManager_cancelMission ms missionId now = (Return (), ms))"
  by (simp add: Robot_cancelCurrentMission_def MissionManager_cancelMission_def)

theorem C4_idempotent_cancellation_witness:
  "robot_status (Robot_new ''robot-001'' 500) = IDLE \<and>
   Robot_cancelCurrentMission (Robot_new ''robot-001'' 500) 9000
     = (Return (), Robot_new ''robot-001'' 500, []) \<and>
   map_of [(''mission-3f2a9c1e'',
       \<lparr>mission_id = ''mission-3f2a9c1e'', mission_status = completed, mission_createdAt = 1000,
        assignedAt = Some 2000, startedAt = Some 3000, completedAt = Some 4000,
        cancelledAt = None, robotId = Some ''robot-001'', estimatedDuration = 180000\<rparr>)]
     ''mission-3f2a9c1e''
     = Some \<lparr>mission_id = ''mission-3f2a9c1e'', mission_status = completed,
        mission_createdAt = 1000, assignedAt = Some 2000, startedAt = Some 3000,
        completedAt = Some 4000, cancelledAt = None, robotId = Some ''robot-001'',
        estimatedDuration = 180000\<rparr> \<and>
   MissionManager_cancelMission [(''mission-3f2a9c1e'',
       \<lparr>mission_id = ''mission-3f2a9c1e'', mission_status = completed, mission_createdAt = 1000,
        assignedAt = Some 2000, startedAt = Some 3000, completedAt = Some 4000,
        cancelledAt = None, robotId = Some ''robot-001'', estimatedDuration = 180000\<rparr>)]
     ''mission-3f2a9c1e'' 9000
     = (Return (), [(''mission-3f2a9c1e'',
       \<lparr>mission_id = ''mission-3f2a9c1e'', mission_status = completed, mission_createdAt = 1000,
        assignedAt = Some 2000, startedAt = Some 3000, completedAt = Some 4000,
        cancelledAt = None, robotId = Some ''robot-001'', estimatedDuration = 180000\<rparr>)])"
  using C4_idempotent_cancellation [of "Robot_new ''robot-001'' 500" 9000
     "[(''mission-3f2a9c1e'',
       \<lparr>mission_id = ''mission-3f2a9c1e'', mission_status = completed, mission_createdAt = 1000,
        assignedAt = Some 2000, startedAt = Some 3000, completedAt = Some 4000,
        cancelledAt = None, robotId = Some ''robot-001'', estimatedDuration = 180000\<rparr>)]"
     "''mission-3f2a9c1e''"
     "\<lparr>mission_id = ''mission-3f2a9c1e'', mission_status = completed, mission_createdAt = 1000,
        assignedAt = Some 2000, startedAt = Some 3000, completedAt = Some 4000,
        cancelledAt = None, robotId = Some ''robot-001'', estimatedDuration = 180000\<rparr>"]
  by (simp add: Robot_new_def)

section \<open>Rejected mission transitions\<close>

text \<open>
  C6. \<^verbatim>\<open>completeMission\<close> on a mission whose status is \<open>created\<close> throws the
  invalid-transition error; \<^verbatim>\<open>assignMission\<close>, \<^verbatim>\<open>startMission\<close>, \<^verbatim>\<open>completeMission\<close>
  and \<^verbatim>\<open>cancelMission\<close> on an identifier that the registry does not hold throw the
  not-found error; the registry after the throw is the registry before the call.
\<close>

theorem C6_transition_rejection:
  "(map_of ms missionId = Some mission \<and> mission_status mission = created \<longrightarrow>
      MissionManager_completeMission ms missionId now = (Throw InvalidTransition, ms)) \<and>
   (map_of ms missionId = None \<longrightarrow>
      MissionManager_assignMission ms missionId rid now = (Throw NotFound, ms) \<and>
      MissionManager_startMission ms missionId now = (Throw NotFound, ms) \<and>
      MissionManager_completeMission ms missionId now = (Throw NotFound, ms) \<and>
      MissionManager_cancelMission ms missionId now = (Throw NotFound, ms))"
  by (simp add: MissionManager_assignMission_def MissionManager_startMission_def
      MissionManager_completeMission_def MissionManager_cancelMission_def)


theorem C6_transition_rejection_witness:
  "map_of (snd (createMission MissionManager_new ''3f2a9c1e-58cc-4372-a567-0e02b2c3d479'' 0 1000))
     ''mission-3f2a9c1e''
     = Some (fst (createMission MissionManager_new ''3f2a9c1e-58cc-4372-a567-0e02b2c3d479'' 0 1000)) \<and>
   mission_status (fst (createMission MissionManager_new ''3f2a9c1e-58cc-4372-a567-0e02b2c3d479'' 0 1000))
     = created \<and>
   MissionManager_completeMission
     (snd (createMission MissionManager_new ''3f2a9c1e-58cc-4372-a567-0e02b2c3d479'' 0 1000))
     ''mission-3f2a9c1e'' 2000
     = (Throw InvalidTransition,
        snd (createMission MissionManager_new ''3f2a9c1e-58cc-4372-a567-0e02b2c3d479'' 0 1000)) \<and>
   map_of MissionManager_new ''invalid-id'' = None \<and>
   MissionManager_assignMission MissionManager_new ''invalid-id'' ''robot-001'' 2000
     = (Throw NotFound, MissionManager_new) \<and>
   MissionManager_startMission MissionManager_new ''invalid-id'' 2000
     = (Throw NotFound, MissionManager_new) \<and>
   MissionManager_completeMission MissionManager_new ''invalid-id'' 2000
     = (Throw NotFound, MissionManager_new) \<and>
   MissionManager_cancelMission MissionManager_new ''invalid-id'' 2000
     = (Throw NotFound, MissionManager_new)"
  using
    C6_transition_rejection [of
      "snd (createMission MissionManager_new ''3f2a9c1e-58cc-4372-a567-0e02b2c3d479'' 0 1000)"
      "''mission-3f2a9c1e''"
      "fst (createMission MissionManager_new ''3f2a9c1e-58cc-4372-a567-0e02b2c3d479'' 0 1000)"
      2000 "''robot-001''"]
    C6_transition_rejection [of MissionManager_new "''invalid-id''"
      "fst (createMission MissionManager_new ''3f2a9c1e-58cc-4372-a567-0e02b2c3d479'' 0 1000)"
      2000 "''robot-001''"]
  by (simp add: createMission_def Let_def MissionManager_new_def)

section \<open>Cleanup of terminal missions\<close>

lemma cleanup_loop_deletes:
  "cleanup_loop es c ms n =
     (n + length (filter (\<lambda>p. expired c (snd p)) es),
      filter (\<lambda>q. fst q \<notin> fst ` set (filter (\<lambda>p. expired c (snd p)) es)) ms)"
proof (induction es arbitrary: ms n)
  case Nil
  show ?case by simp
next
  case (Cons e es)
  obtain k m where e: "e = (k, m)" by (cases e)
  show ?case
  proof (cases "expired c m")
    case True
    have "filter (\<lambda>q. fst q \<notin> fst ` set (filter (\<lambda>p. expired c (snd p)) es)) (AList.delete k ms)
        = filter (\<lambda>q. fst q \<notin> fst ` set (filter (\<lambda>p. expired c (snd p)) (e # es))) ms"
      using True e by (auto simp: AList.delete_eq intro: filter_cong)
    with True e Cons.IH show ?thesis by simp
  next
    case False
    with e Cons.IH show ?thesis by simp
  qed
qed

lemma cleanup_filter:
  assumes "distinct (map fst ms)"
  shows "cleanupCompletedMissions ms olderThanMs now =
     (length (filter (\<lambda>p. expired (now - olderThanMs) (snd p)) ms),
      filter (\<lambda>p. \<not> expired (now - olderThanMs) (snd p)) ms)"
proof -
  have "filter (\<lambda>q. fst q \<notin> fst ` set (filter (\<lambda>p. expired c (snd p)) ms)) ms
      = filter (\<lambda>p. \<not> expired c (snd p)) ms" for c
  proof (rule filter_cong [OF refl])
    fix q assume q: "q \<in> set ms"
    obtain k m where km: "q = (k, m)" by (cases q)
    have uniq: "m' = m" if "(k, m') \<in> set ms" for m'
      using assms q km that by (meson eq_key_imp_eq_value)
    have "k \<in> fst ` set (filter (\<lambda>p. expired c (snd p)) ms)" if "expired c m"
    proof -
      from q km that have "(k, m) \<in> set (filter (\<lambda>p. expired c (snd p)) ms)" by simp
      then show ?thesis by (rule image_eqI [rotated]) simp
    qed
    moreover have "expired c m" if "k \<in> fst ` set (filter (\<lambda>p. expired c (snd p)) ms)"
    proof -
      from that obtain p where p: "p \<in> set ms" "expired c (snd p)" "fst p = k" by auto
      from p(1,3) have "(k, snd p) \<in> set ms" by (metis prod.collapse)
      then have "snd p = m" by (rule uniq)
      with p(2) show ?thesis by simp
    qed
    ultimately show "(fst q \<notin> fst ` set (filter (\<lambda>p. expired c (snd p)) ms)) = (\<not> expired c (snd q))"
      using km by auto
  qed
  then show ?thesis
    by (simp add: cleanupCompletedMissions_def cleanup_loop_deletes Let_def)
qed

text \<open>
  C7 as stated fails in its last part: the loop compares with \<open><\<close>, so with
  \<^verbatim>\<open>maxAgeMs = 0\<close> a terminal mission created in the very millisecond of the call (its
  \<^verbatim>\<open>createdAt\<close> equals \<^verbatim>\<open>Date.now()\<close>) is kept.
\<close>

theorem C7_counterexample:
  "cleanupCompletedMissions
     [(''mission-3f2a9c1e'',
       \<lparr>mission_id = ''mission-3f2a9c1e'', mission_status = completed, mission_createdAt = 5000,
        assignedAt = Some 5000, startedAt = Some 5000, completedAt = Some 5000,
        cancelledAt = None, robotId = Some ''robot-001'', estimatedDuration = 180000\<rparr>)]
     0 5000
   = (0, [(''mission-3f2a9c1e'',
       \<lparr>mission_id = ''mission-3f2a9c1e'', mission_status = completed, mission_createdAt = 5000,
        assignedAt = Some 5000, startedAt = Some 5000, completedAt = Some 5000,
        cancelledAt = None, robotId = Some ''robot-001'', estimatedDuration = 180000\<rparr>)])"
  by (simp add: cleanupCompletedMissions_def expired_def)

text \<open>
  C7, amended. For every registry (a map: its keys are distinct) and every \<^verbatim>\<open>maxAgeMs\<close>,
  \<^verbatim>\<open>cleanupCompletedMissions(maxAgeMs)\<close> returns the number of missions that are completed
  or cancelled and whose \<^verbatim>\<open>createdAt\<close> is strictly less than \<^verbatim>\<open>now - maxAgeMs\<close>, and
  leaves in the registry exactly the other missions, unchanged and in their order. With
  \<^verbatim>\<open>maxAgeMs = 0\<close> the missions removed are the terminal ones created strictly before
  \<^verbatim>\<open>now\<close>.
\<close>

theorem C7_cleanup_removes_expired:
  assumes "distinct (map fst ms)"
  shows
    "cleanupCompletedMissions ms maxAgeMs now =
       (length (filter (\<lambda>e. (mission_status (snd e) = completed \<or>
                               mission_status (snd e) = cancelled) \<and>
                              mission_createdAt (snd e) < now - maxAgeMs) ms),
        filter (\<lambda>e. \<not> ((mission_status (snd e) = completed \<or>
                           mission_status (snd e) = cancelled) \<and>
                          mission_createdAt (snd e) < now - maxAgeMs)) ms) \<and>
     snd (cleanupCompletedMissions ms 0 now) =
        filter (\<lambda>e. \<not> ((mission_status (snd e) = completed \<or>
                           mission_status (snd e) = cancelled) \<and>
                          mission_createdAt (snd e) < now)) ms"
  using cleanup_filter [OF assms, of maxAgeMs now] cleanup_filter [OF assms, of 0 now]
  by (simp add: expired_def)

theorem C7_cleanup_removes_expired_witness:
  "distinct (map fst
     [(''mission-0000000a'',
       \<lparr>mission_id = ''mission-0000000a'', mission_status = completed, mission_createdAt = 1000,
        assignedAt = Some 1500, startedAt = Some 2000, completedAt = Some 2500,
        cancelledAt = None, robotId = Some ''robot-001'', estimatedDuration = 180000\<rparr>),
      (''mission-0000000b'',
       \<lparr>mission_id = ''mission-0000000b'', mission_status = in_progress, mission_createdAt = 1000,
        assignedAt = Some 1500, startedAt = Some 2000, completedAt = None,
        cancelledAt = None, robotId = Some ''robot-002'', estimatedDuration = 180000\<rparr>),
      (''mission-0000000c'',
       \<lparr>mission_id = ''mission-0000000c'', mission_status = cancelled, mission_createdAt = 9000,
        assignedAt = None, startedAt = None, completedAt = None,
        cancelledAt = Some 9500, robotId = None, estimatedDuration = 180000\<rparr>)]) \<and>
   cleanupCompletedMissions
     [(''mission-0000000a'',
       \<lparr>mission_id = ''mission-0000000a'', mission_status = completed, mission_createdAt = 1000,
        assignedAt = Some 1500, startedAt = Some 2000, completedAt = Some 2500,
        cancelledAt = None, robotId = Some ''robot-001'', estimatedDuration = 180000\<rparr>),
      (''mission-0000000b'',
       \<lparr>mission_id = ''mission-0000000b'', mission_status = in_progress, mission_createdAt = 1000,
        assignedAt = Some 1500, startedAt = Some 2000, completedAt = None,
        cancelledAt = None, robotId = Some ''robot-002'', estimatedDuration = 180000\<rparr>),
      (''mission-0000000c'',
       \<lparr>mission_id = ''mission-0000000c'', mission_status = cancelled, mission_createdAt = 9000,
        assignedAt = None, startedAt = None, completedAt = None,
        cancelledAt = Some 9500, robotId = None, estimatedDuration = 180000\<rparr>)]
     3000 10000
   = (1,
      [(''mission-0000000b'',
        \<lparr>mission_id = ''mission-0000000b'', mission_status = in_progress, mission_createdAt = 1000,
         assignedAt = Some 1500, startedAt = Some 2000, completedAt = None,
         cancelledAt = None, robotId = Some ''robot-002'', estimatedDuration = 180000\<rparr>),
       (''mission-0000000c'',
        \<lparr>mission_id = ''mission-0000000c'', mission_status = cancelled, mission_createdAt = 9000,
         assignedAt = None, startedAt = None, completedAt = None,
         cancelledAt = Some 9500, robotId = None, estimatedDuration = 180000\<rparr>)])"
  using C7_cleanup_removes_expired [of
     "[(''mission-0000000a'',
       \<lparr>mission_id = ''mission-0000000a'', mission_status = completed, mission_createdAt = 1000,
        assignedAt = Some 1500, startedAt = Some 2000, completedAt = Some 2500,
        cancelledAt = None, robotId = Some ''robot-001'', estimatedDuration = 180000\<rparr>),
      (''mission-0000000b'',
       \<lparr>mission_id = ''mission-0000000b'', mission_status = in_progress, mission_createdAt = 1000,
        assignedAt = Some 1500, startedAt = Some 2000, completedAt = None,
        cancelledAt = None, robotId = Some ''robot-002'', estimatedDuration = 180000\<rparr>),
      (''mission-0000000c'',
       \<lparr>mission_id = ''mission-0000000c'', mission_status = cancelled, mission_createdAt = 9000,
        assignedAt = None, startedAt = None, completedAt = None,
        cancelledAt = Some 9500, robotId = None, estimatedDuration = 180000\<rparr>)]"
     3000 10000]
  by simp

section \<open>Mission identifiers\<close>

text \<open>
  C8 at two draws of \<^verbatim>\<open>uuidv4()\<close> that differ but share their first eight characters:
  both missions get the identifier \<open>mission-3f2a9c1e\<close>, and the second
  \<^verbatim>\<open>missions.set\<close> replaces the first mission, so that the registry holds one mission
  after two creations.
\<close>

theorem C8_createMission_id_collision:
  "mission_id (fst (createMission MissionManager_new
       ''3f2a9c1e-58cc-4372-a567-0e02b2c3d479'' 0 1000)) = ''mission-3f2a9c1e'' \<and>
   mission_id (fst (createMission
       (snd (createMission MissionManager_new ''3f2a9c1e-58cc-4372-a567-0e02b2c3d479'' 0 1000))
       ''3f2a9c1e-7b1d-4c55-9e0a-6f1d2a3b4c5d'' 0 2000)) = ''mission-3f2a9c1e'' \<and>
   getAllMissions (snd (createMission
       (snd (createMission MissionManager_new ''3f2a9c1e-58cc-4372-a567-0e02b2c3d479'' 0 1000))
       ''3f2a9c1e-7b1d-4c55-9e0a-6f1d2a3b4c5d'' 0 2000))
     = [fst (createMission
       (snd (createMission MissionManager_new ''3f2a9c1e-58cc-4372-a567-0e02b2c3d479'' 0 1000))
       ''3f2a9c1e-7b1d-4c55-9e0a-6f1d2a3b4c5d'' 0 2000)] \<and>
   mission_createdAt (fst (createMission
       (snd (createMission MissionManager_new ''3f2a9c1e-58cc-4372-a567-0e02b2c3d479'' 0 1000))
       ''3f2a9c1e-7b1d-4c55-9e0a-6f1d2a3b4c5d'' 0 2000)) = 2000"
  by (simp add: createMission_def Let_def MissionManager_new_def getAllMissions_def)

section \<open>Fleet: identifiers and the shape of the map\<close>

lemma digit_cases: "d < 10 \<Longrightarrow> d \<in> {0, 1, 2, 3, 4, 5, 6, 7, 8, 9::nat}"
  by auto

lemma digitValue_digit: "d < 10 \<Longrightarrow> digitValue (''0123456789'' ! d) = d"
  using digit_cases [of d] by (auto simp: digitValue_def)

lemma parseDecimal_snoc: "parseDecimal (s @ [c]) = 10 * parseDecimal s + digitValue c"
  by (simp add: parseDecimal_def)

lemma parseDecimal_toString: "parseDecimal (toString n) = n"
proof (induction n rule: toString.induct)
  case (1 n)
  show ?case
  proof (cases "n < 10")
    case True
    then show ?thesis
      by (subst toString.simps) (simp add: parseDecimal_def digitValue_digit)
  next
    case False
    with "1.IH" have "parseDecimal (toString (n div 10)) = n div 10" by simp
    with False show ?thesis
      by (subst toString.simps) (simp add: parseDecimal_snoc digitValue_digit)
  qed
qed

lemma parseDecimal_zeros: "parseDecimal (replicate k CHR ''0'' @ s) = parseDecimal s"
proof -
  have "foldl (\<lambda>a c. 10 * a + digitValue c) 0 (replicate k CHR ''0'') = 0"
    by (induction k) (simp_all add: digitValue_def)
  then show ?thesis by (simp add: parseDecimal_def)
qed

lemma robotNumber_fleet_robotId: "robotNumber (fleet_robotId i) = i"
  by (simp add: robotNumber_def fleet_robotId_def padStart_def parseDecimal_zeros
      parseDecimal_toString)

lemma fleet_robotId_inj: "fleet_robotId i = fleet_robotId j \<Longrightarrow> i = j"
  by (metis robotNumber_fleet_robotId)


lemma fleet_robotId_mem: "fleet_robotId i \<in> fleet_robotId ` A \<longleftrightarrow> i \<in> A"
  using fleet_robotId_inj by blast

lemma initializeFleet_round_eq:
  "initializeFleet_round clock rs i = AList.update (fleet_robotId i) (roundRobot clock i) rs"
  by (simp add: initializeFleet_round_def roundRobot_def Robot_new_def on_def Let_def)

lemma upt_from_1_Suc: "[1..<Suc (Suc m)] = [1..<Suc m] @ [Suc m]"
  by simp

lemma rounds_keys:
  assumes "map fst rs = map fleet_robotId [1..<Suc n]"
  shows "map fst (foldl (initializeFleet_round clock) rs [1..<Suc m])
           = map fleet_robotId [1..<Suc (max n m)]"
proof (induction m)
  case 0
  with assms show ?case by simp
next
  case (Suc m)
  let ?rs = "foldl (initializeFleet_round clock) rs [1..<Suc m]"
  have step: "foldl (initializeFleet_round clock) rs [1..<Suc (Suc m)]
                = AList.update (fleet_robotId (Suc m)) (roundRobot clock (Suc m)) ?rs"
    by (simp only: upt_from_1_Suc foldl_append foldl.simps initializeFleet_round_eq)
  have mem: "fleet_robotId (Suc m) \<in> set (map fst ?rs) \<longleftrightarrow> Suc m \<le> n"
    by (simp only: Suc.IH set_map set_upt fleet_robotId_mem) auto
  show ?case
  proof (cases "Suc m \<le> n")
    case True
    then have "max n (Suc m) = max n m" by simp
    with True mem Suc.IH show ?thesis
      by (simp only: step update_keys if_True)
  next
    case False
    then have mx: "max n m = m" "max n (Suc m) = Suc m" by simp_all
    from False mem have "map fst (AList.update (fleet_robotId (Suc m)) (roundRobot clock (Suc m)) ?rs)
         = map fst ?rs @ [fleet_robotId (Suc m)]"
      by (simp only: update_keys if_False)
    also have "\<dots> = map fleet_robotId [1..<Suc (Suc m)]"
      by (simp only: Suc.IH mx upt_from_1_Suc map_append list.map)
    finally show ?thesis by (simp only: step mx)
  qed
qed

lemma rounds_values:
  "map_of (foldl (initializeFleet_round clock) rs [1..<Suc m]) (fleet_robotId i)
     = (if 1 \<le> i \<and> i \<le> m then Some (roundRobot clock i) else map_of rs (fleet_robotId i))"
proof (induction m)
  case 0
  show ?case by auto
next
  case (Suc m)
  let ?rs = "foldl (initializeFleet_round clock) rs [1..<Suc m]"
  have step: "foldl (initializeFleet_round clock) rs [1..<Suc (Suc m)]
                = AList.update (fleet_robotId (Suc m)) (roundRobot clock (Suc m)) ?rs"
    by (simp only: upt_from_1_Suc foldl_append foldl.simps initializeFleet_round_eq)
  have val: "map_of (foldl (initializeFleet_round clock) rs [1..<Suc (Suc m)]) (fleet_robotId i)
       = (if i = Suc m then Some (roundRobot clock (Suc m)) else map_of ?rs (fleet_robotId i))"
  proof (cases "i = Suc m")
    case True
    then show ?thesis by (simp only: step update_conv' fun_upd_same if_True refl simp_thms)
  next
    case False
    then have "fleet_robotId i \<noteq> fleet_robotId (Suc m)"
      using fleet_robotId_inj by blast
    with False show ?thesis by (simp only: step update_conv' fun_upd_apply if_False refl simp_thms)
  qed
  show ?case unfolding val Suc.IH by auto
qed

lemma ids_update:
  "list_all (\<lambda>e. robot_id (snd e) = fst e) xs \<Longrightarrow> robot_id v = k \<Longrightarrow>
   list_all (\<lambda>e. robot_id (snd e) = fst e) (AList.update k v xs)"
  by (induction xs) auto

lemma roundRobot_id: "robot_id (roundRobot clock i) = fleet_robotId i"
  by (simp add: roundRobot_def)

lemma rounds_ids:
  "list_all (\<lambda>e. robot_id (snd e) = fst e) rs \<Longrightarrow>
   list_all (\<lambda>e. robot_id (snd e) = fst e) (foldl (initializeFleet_round clock) rs is)"
proof (induction "is" arbitrary: rs)
  case Nil
  then show ?case by simp
next
  case (Cons i "is")
  have "list_all (\<lambda>e. robot_id (snd e) = fst e) (initializeFleet_round clock rs i)"
    unfolding initializeFleet_round_eq by (rule ids_update [OF Cons.prems roundRobot_id])
  with Cons.IH show ?case by simp
qed

lemma update_present_keys:
  "k \<in> fst ` set al \<Longrightarrow> map fst (AList.update k v al) = map fst al"
  by (simp add: update_keys)

lemma robot_step_id: "robot_id (robot_step r c) = robot_id r"
  by (cases c, cases "fst c")
     (auto simp: robot_step_def Robot_assignMission_def Robot_startMission_def
        Robot_startDelivering_def Robot_completeMission_def Robot_returnToIdle_def
        Robot_cancelCurrentMission_def updateTimestamp_def Let_def)

lemma fleet_inv_update:
  assumes "fleet_inv fm" "map_of (robots fm) k = Some r" "robot_id r' = robot_id r"
  shows "fleet_inv (fm\<lparr>robots := AList.update k r' (robots fm)\<rparr>)"
proof -
  from assms(2) have mem: "(k, r) \<in> set (robots fm)" by (rule map_of_SomeD)
  then have k: "k \<in> fst ` set (robots fm)" by (rule image_eqI [rotated]) simp
  from assms(1) mem have "robot_id r = k"
    by (auto simp: fleet_inv_def list_all_iff)
  with assms(3) have id: "robot_id r' = k" by simp
  have keys: "map fst (AList.update k r' (robots fm)) = map fst (robots fm)"
    by (rule update_present_keys [OF k])
  then have len: "length (AList.update k r' (robots fm)) = length (robots fm)"
    by (metis length_map)
  from assms(1) have "list_all (\<lambda>e. robot_id (snd e) = fst e) (robots fm)"
    by (simp add: fleet_inv_def)
  then have "list_all (\<lambda>e. robot_id (snd e) = fst e) (AList.update k r' (robots fm))"
    by (rule ids_update [OF _ id])
  with assms(1) keys len show ?thesis
    by (simp add: fleet_inv_def fleet_keys_def)
qed

lemma fleet_inv_initializeFleet:
  assumes "fleet_inv fm"
  shows "fleet_inv (initializeFleet fm m clock)"
proof -
  let ?n = "length (robots fm)"
  let ?rs = "foldl (initializeFleet_round clock) (robots fm) [1..<Suc m]"
  from assms have k0: "map fst (robots fm) = map fleet_robotId [1..<Suc ?n]"
    by (simp add: fleet_inv_def fleet_keys_def)
  have keys: "map fst ?rs = map fleet_robotId [1..<Suc (max ?n m)]"
    by (rule rounds_keys [OF k0])
  then have "length (map fst ?rs) = max ?n m" by (simp only: length_map length_upt)
  then have len: "length ?rs = max ?n m" by simp
  from assms have "list_all (\<lambda>e. robot_id (snd e) = fst e) ?rs"
    by (simp add: fleet_inv_def rounds_ids)
  with keys len show ?thesis
    by (simp add: fleet_inv_def fleet_keys_def initializeFleet_def del: upt_Suc)
qed

lemma getAvailableRobots_hd:
  assumes "getAvailableRobots fm = (k, r) # rest"
  shows "(k, r) \<in> set (robots fm) \<and> robot_status r = IDLE"
proof -
  from assms have "(k, r) \<in> set (filter (\<lambda>e. robot_status (snd e) = IDLE) (robots fm))"
    by (simp add: getAvailableRobots_def)
  then show ?thesis by simp
qed

lemma fleet_distinct: "fleet_inv fm \<Longrightarrow> distinct (map fst (robots fm))"
  using fleet_robotId_inj
  by (simp add: fleet_inv_def fleet_keys_def distinct_map inj_on_def del: upt_Suc)

lemma fleet_inv_step:
  assumes "fleet_inv fm"
  shows "fleet_inv (fleet_step fm c)"
proof (cases "(fm, c)" rule: fleet_step.cases)
  case (1 fm' robotCount clock now)
  with assms show ?thesis by (simp add: fleet_inv_initializeFleet)
next
  case (2 fm' mission now)
  then have c: "c = (AssignMissionToAvailableRobot mission, now)" by simp
  show ?thesis
  proof (cases "getAvailableRobots fm")
    case Nil
    with c assms show ?thesis by (simp add: assignMissionToAvailableRobot_def)
  next
    case (Cons e rest)
    obtain k r where e: "e = (k, r)" by (cases e)
    from Cons e have mem: "(k, r) \<in> set (robots fm)"
      using getAvailableRobots_hd by blast
    with fleet_distinct [OF assms] have look: "map_of (robots fm) k = Some r" by simp
    have "robot_id (fst (snd (Robot_assignMission r mission now))) = robot_id r"
      by (simp add: Robot_assignMission_def updateTimestamp_def Let_def)
    from fleet_inv_update [OF assms look this] Cons e c show ?thesis
      by (auto simp: assignMissionToAvailableRobot_def split: prod.splits)
  qed
next
  case (3 fm' rid now)
  then have c: "c = (CancelRobotMission rid, now)" by simp
  show ?thesis
  proof (cases "map_of (robots fm) rid")
    case None
    with c assms show ?thesis by (simp add: cancelRobotMission_def)
  next
    case (Some r)
    have "robot_id (fst (snd (Robot_cancelCurrentMission r now))) = robot_id r"
      by (simp add: Robot_cancelCurrentMission_def updateTimestamp_def Let_def)
    from fleet_inv_update [OF assms Some this] Some c show ?thesis
      by (auto simp: cancelRobotMission_def split: prod.splits)
  qed
next
  case (4 fm' rid rc now)
  then have c: "c = (RobotCall rid rc, now)" by simp
  show ?thesis
  proof (cases "map_of (robots fm) rid")
    case None
    with c assms show ?thesis by (simp add: getRobot_def)
  next
    case (Some r)
    from fleet_inv_update [OF assms Some robot_step_id] Some c show ?thesis
      by (simp add: getRobot_def)
  qed
next
  case (5 fm' name f now)
  with assms show ?thesis by (simp add: fleet_inv_def fleet_keys_def)
qed

lemma SimulationEngine_new_fleet:
  "fleetManager (SimulationEngine_new fm mm) =
     fleet_run fm [(FleetOn ''robotStatusChanged'' EngineOnRobotStatusChanged, now),
                   (FleetOn ''robotMissionCancelled'' EngineOnRobotMissionCancelled, now)]"
  by (simp add: SimulationEngine_new_def fleet_run_def)

lemma fleet_inv_new: "fleet_inv FleetManager_new"
  by (simp add: fleet_inv_def fleet_keys_def FleetManager_new_def)

lemma fleet_inv_run: "fleet_inv fm \<Longrightarrow> fleet_inv (fleet_run fm cs)"
  unfolding fleet_run_def
  by (induction cs arbitrary: fm) (simp_all add: fleet_inv_step)

section \<open>Fleet: assignment to the first idle robot\<close>

lemma first_match_lowest:
  assumes "map fst xs = map f [a..<a + length xs]"
    and "\<And>i j. f i = f j \<Longrightarrow> i = j"
    and "filter (\<lambda>e. P (snd e)) xs = (k, r) # rest"
  shows "\<exists>i. a \<le> i \<and> k = f i \<and> map_of xs k = Some r \<and>
             (\<forall>j r'. map_of xs (f j) = Some r' \<and> P r' \<longrightarrow> i \<le> j)"
  using assms(1,3)
proof (induction xs arbitrary: a)
  case Nil
  then show ?case by simp
next
  case (Cons e xs)
  obtain k0 r0 where e: "e = (k0, r0)" by (cases e)
  have upt: "[a..<a + length (e # xs)] = a # [Suc a..<Suc a + length xs]"
    by (subst upt_conv_Cons) (simp_all del: upt_Suc)
  have "map fst (e # xs) = f a # map f [Suc a..<Suc a + length xs]"
    using Cons.prems(1) unfolding upt by (simp only: list.map)
  with e have k0: "k0 = f a" and keys: "map fst xs = map f [Suc a..<Suc a + length xs]"
    by (simp_all del: upt_Suc)
  show ?case
  proof (cases "P r0")
    case True
    with Cons.prems(2) e have kr: "k = k0" "r = r0" by simp_all
    have "a \<le> j" if "map_of (e # xs) (f j) = Some r'" for j r'
    proof -
      from that have "f j \<in> fst ` set (e # xs)"
        by (metis domI dom_map_of_conv_image_fst)
      then have "f j \<in> set (map fst (e # xs))" by simp
      then have "f j \<in> f ` {a..<a + length (e # xs)}"
        unfolding Cons.prems(1) by (simp only: set_map set_upt)
      then obtain i where "f j = f i" "a \<le> i" by auto
      with assms(2) show ?thesis by blast
    qed
    with kr k0 e show ?thesis by (intro exI [of _ a]) auto
  next
    case False
    with Cons.prems(2) e have "filter (\<lambda>e. P (snd e)) xs = (k, r) # rest" by simp
    from Cons.IH [OF keys this] obtain i where i: "Suc a \<le> i" "k = f i" "map_of xs k = Some r"
      "\<forall>j r'. map_of xs (f j) = Some r' \<and> P r' \<longrightarrow> i \<le> j" by blast
    from i(1,2) k0 assms(2) have ne: "k \<noteq> k0" by (metis Suc_n_not_le_n)
    have "i \<le> j" if "map_of (e # xs) (f j) = Some r'" "P r'" for j r'
    proof (cases "f j = k0")
      case True
      with that e False show ?thesis by simp
    next
      case False
      with that e have "map_of xs (f j) = Some r'" by (simp split: if_splits)
      with that(2) i(4) show ?thesis by blast
    qed
    with i ne e show ?thesis by (intro exI [of _ i]) auto
  qed
qed

lemma assign_none:
  "getAvailableRobots fm = [] \<Longrightarrow> assignMissionToAvailableRobot fm mission now = (None, fm, [])"
  by (simp add: assignMissionToAvailableRobot_def)

lemma no_idle_available:
  "(\<forall>r\<in>set (getAllRobots fm). robot_status r \<noteq> IDLE) \<longleftrightarrow> getAvailableRobots fm = []"
  by (auto simp: getAllRobots_def getAvailableRobots_def filter_empty_conv)

lemma assign_some:
  assumes "fleet_inv fm" "getAvailableRobots fm \<noteq> []"
  shows "\<exists>i r. getRobot fm (fleet_robotId i) = Some r \<and> robot_status r = IDLE \<and> robot_id r = fleet_robotId i \<and>
           (\<forall>j r'. getRobot fm (fleet_robotId j) = Some r' \<and> robot_status r' = IDLE \<longrightarrow> i \<le> j) \<and>
           assignMissionToAvailableRobot fm mission now =
             (Some (r\<lparr>robot_status := ASSIGNED, currentMissionId := Some (mission_id mission),
                      lastUpdated := now\<rparr>),
              fm\<lparr>robots := AList.update (fleet_robotId i)
                     (r\<lparr>robot_status := ASSIGNED, currentMissionId := Some (mission_id mission),
                        lastUpdated := now\<rparr>) (robots fm)\<rparr>,
              [(''statusChanged'',
                StatusData (fleet_robotId i) ASSIGNED (Some (mission_id mission)))])"
proof -
  from assms(2) obtain k r rest where av: "getAvailableRobots fm = (k, r) # rest"
    by (cases "getAvailableRobots fm") auto
  from assms(1) have keys: "map fst (robots fm) = map fleet_robotId [1..<1 + length (robots fm)]"
    by (simp add: fleet_inv_def fleet_keys_def)
  from av have flt: "filter (\<lambda>e. robot_status (snd e) = IDLE) (robots fm) = (k, r) # rest"
    by (simp add: getAvailableRobots_def)
  from first_match_lowest [where P = "\<lambda>r. robot_status r = IDLE", OF keys fleet_robotId_inj flt]
  obtain i where i: "k = fleet_robotId i" "map_of (robots fm) k = Some r"
    "\<forall>j r'. map_of (robots fm) (fleet_robotId j) = Some r' \<and> robot_status r' = IDLE \<longrightarrow> i \<le> j"
    by blast
  from getAvailableRobots_hd [OF av] have idle: "robot_status r = IDLE" and mem: "(k, r) \<in> set (robots fm)"
    by simp_all
  from assms(1) mem have id: "robot_id r = k"
    by (auto simp: fleet_inv_def list_all_iff)
  from av idle id i(1) have
    "assignMissionToAvailableRobot fm mission now =
       (Some (r\<lparr>robot_status := ASSIGNED, currentMissionId := Some (mission_id mission),
                lastUpdated := now\<rparr>),
        fm\<lparr>robots := AList.update (fleet_robotId i)
               (r\<lparr>robot_status := ASSIGNED, currentMissionId := Some (mission_id mission),
                  lastUpdated := now\<rparr>) (robots fm)\<rparr>,
        [(''statusChanged'',
          StatusData (fleet_robotId i) ASSIGNED (Some (mission_id mission)))])"
    by (simp add: assignMissionToAvailableRobot_def Robot_assignMission_def
        updateTimestamp_def Let_def)
  with i idle id show ?thesis
    unfolding getRobot_def by (intro exI [of _ i] exI [of _ r]) simp
qed

lemma assign_returns_idle:
  assumes "fleet_inv fm" "fst (assignMissionToAvailableRobot fm mission now) = Some r'"
  shows "map_option robot_status (getRobot fm (robot_id r')) = Some IDLE \<and>
         getRobot (fst (snd (assignMissionToAvailableRobot fm mission now))) (robot_id r') = Some r' \<and>
         robot_status r' = ASSIGNED \<and> currentMissionId r' = Some (mission_id mission)"
proof -
  from assms(2) have "getAvailableRobots fm \<noteq> []"
    by (auto simp: assign_none)
  from assign_some [OF assms(1) this, of mission now] assms(2)
  show ?thesis
    by (auto simp: getRobot_def update_conv')
qed


text \<open>
  C2. In every state of the fleet manager (the state after any calls of
  \<^verbatim>\<open>initializeFleet\<close>, \<^verbatim>\<open>assignMissionToAvailableRobot\<close>, \<^verbatim>\<open>cancelRobotMission\<close>,
  \<^verbatim>\<open>on\<close> and of the methods of its robots), \<^verbatim>\<open>assignMissionToAvailableRobot(mission)\<close> returns null
  and changes nothing if no robot is IDLE. Otherwise it returns the IDLE robot with the
  lowest identifier, identifiers being ordered by their number (the robot of round \<open>i\<close>
  is \<open>fleet_robotId i\<close>), with its status set to ASSIGNED and its \<^verbatim>\<open>currentMissionId\<close> to
  \<^verbatim>\<open>mission.id\<close>. A robot that a call returns was IDLE before the call and is ASSIGNED
  after it; so the next call returns another robot, and a later call made after any
  further calls returns the same robot only if that robot is IDLE again by then.
\<close>

theorem C2_assign_lowest_idle:
  assumes "fm = fleet_run FleetManager_new cs"
  shows
    "((\<forall>r\<in>set (getAllRobots fm). robot_status r \<noteq> IDLE) \<longrightarrow>
        assignMissionToAvailableRobot fm mission now = (None, fm, [])) \<and>
     ((\<exists>r\<in>set (getAllRobots fm). robot_status r = IDLE) \<longrightarrow>
        (\<exists>i r. getRobot fm (fleet_robotId i) = Some r \<and> robot_status r = IDLE \<and>
           (\<forall>j r'. getRobot fm (fleet_robotId j) = Some r' \<and> robot_status r' = IDLE \<longrightarrow> i \<le> j) \<and>
           assignMissionToAvailableRobot fm mission now =
             (Some (r\<lparr>robot_status := ASSIGNED, currentMissionId := Some (mission_id mission),
                      lastUpdated := now\<rparr>),
              fm\<lparr>robots := AList.update (fleet_robotId i)
                     (r\<lparr>robot_status := ASSIGNED, currentMissionId := Some (mission_id mission),
                        lastUpdated := now\<rparr>) (robots fm)\<rparr>,
              [(''statusChanged'',
                StatusData (fleet_robotId i) ASSIGNED (Some (mission_id mission)))]))) \<and>
     (\<forall>r1. fst (assignMissionToAvailableRobot fm mission now) = Some r1 \<longrightarrow>
        map_option robot_status (getRobot fm (robot_id r1)) = Some IDLE \<and>
        map_option robot_status
          (getRobot (fst (snd (assignMissionToAvailableRobot fm mission now))) (robot_id r1))
          = Some ASSIGNED \<and>
        (\<forall>cs' mission' now' r2.
           fst (assignMissionToAvailableRobot
                  (fleet_run (fst (snd (assignMissionToAvailableRobot fm mission now))) cs')
                  mission' now') = Some r2 \<and>
           robot_id r2 = robot_id r1 \<longrightarrow>
           map_option robot_status
             (getRobot (fleet_run (fst (snd (assignMissionToAvailableRobot fm mission now))) cs')
                (robot_id r1)) = Some IDLE) \<and>
        (\<forall>mission' now' r2.
           fst (assignMissionToAvailableRobot
                  (fst (snd (assignMissionToAvailableRobot fm mission now))) mission' now') = Some r2
           \<longrightarrow> robot_id r2 \<noteq> robot_id r1))"
proof -
  let ?A = "assignMissionToAvailableRobot fm mission now"
  let ?fm1 = "fst (snd ?A)"
  have inv: "fleet_inv fm"
    unfolding assms by (rule fleet_inv_run [OF fleet_inv_new])
  have "fleet_inv (fleet_step fm (AssignMissionToAvailableRobot mission, now))"
    by (rule fleet_inv_step [OF inv])
  then have inv1: "fleet_inv ?fm1" by simp
  have none: "(\<forall>r\<in>set (getAllRobots fm). robot_status r \<noteq> IDLE) \<longrightarrow> ?A = (None, fm, [])"
    by (simp only: no_idle_available) (simp add: assign_none)
  have some: "(\<exists>r\<in>set (getAllRobots fm). robot_status r = IDLE) \<longrightarrow>
        (\<exists>i r. getRobot fm (fleet_robotId i) = Some r \<and> robot_status r = IDLE \<and>
           (\<forall>j r'. getRobot fm (fleet_robotId j) = Some r' \<and> robot_status r' = IDLE \<longrightarrow> i \<le> j) \<and>
           ?A =
             (Some (r\<lparr>robot_status := ASSIGNED, currentMissionId := Some (mission_id mission),
                      lastUpdated := now\<rparr>),
              fm\<lparr>robots := AList.update (fleet_robotId i)
                     (r\<lparr>robot_status := ASSIGNED, currentMissionId := Some (mission_id mission),
                        lastUpdated := now\<rparr>) (robots fm)\<rparr>,
              [(''statusChanged'',
                StatusData (fleet_robotId i) ASSIGNED (Some (mission_id mission)))]))"
  proof
    assume "\<exists>r\<in>set (getAllRobots fm). robot_status r = IDLE"
    with no_idle_available [of fm] have "getAvailableRobots fm \<noteq> []" by blast
    from assign_some [OF inv this, of mission now] show "\<exists>i r. getRobot fm (fleet_robotId i) = Some r \<and> robot_status r = IDLE \<and>
           (\<forall>j r'. getRobot fm (fleet_robotId j) = Some r' \<and> robot_status r' = IDLE \<longrightarrow> i \<le> j) \<and>
           ?A =
             (Some (r\<lparr>robot_status := ASSIGNED, currentMissionId := Some (mission_id mission),
                      lastUpdated := now\<rparr>),
              fm\<lparr>robots := AList.update (fleet_robotId i)
                     (r\<lparr>robot_status := ASSIGNED, currentMissionId := Some (mission_id mission),
                        lastUpdated := now\<rparr>) (robots fm)\<rparr>,
              [(''statusChanged'',
                StatusData (fleet_robotId i) ASSIGNED (Some (mission_id mission)))])"
      by blast
  qed
  have book: "map_option robot_status (getRobot fm (robot_id r1)) = Some IDLE \<and>
        map_option robot_status (getRobot ?fm1 (robot_id r1)) = Some ASSIGNED \<and>
        (\<forall>cs' mission' now' r2.
           fst (assignMissionToAvailableRobot (fleet_run ?fm1 cs') mission' now') = Some r2 \<and>
           robot_id r2 = robot_id r1 \<longrightarrow>
           map_option robot_status (getRobot (fleet_run ?fm1 cs') (robot_id r1)) = Some IDLE) \<and>
        (\<forall>mission' now' r2.
           fst (assignMissionToAvailableRobot ?fm1 mission' now') = Some r2
           \<longrightarrow> robot_id r2 \<noteq> robot_id r1)"
    if r1: "fst ?A = Some r1" for r1
  proof -
    note first = assign_returns_idle [OF inv r1]
    have later: "map_option robot_status (getRobot (fleet_run ?fm1 cs') (robot_id r1)) = Some IDLE"
      if "fst (assignMissionToAvailableRobot (fleet_run ?fm1 cs') mission' now') = Some r2"
        "robot_id r2 = robot_id r1" for cs' mission' now' r2
      using assign_returns_idle [OF fleet_inv_run [OF inv1] that(1)] that(2) by simp
    have next_call: "robot_id r2 \<noteq> robot_id r1"
      if "fst (assignMissionToAvailableRobot ?fm1 mission' now') = Some r2" for mission' now' r2
    proof
      assume "robot_id r2 = robot_id r1"
      with assign_returns_idle [OF inv1 that]
      have "map_option robot_status (getRobot ?fm1 (robot_id r1)) = Some IDLE" by simp
      with first show False by simp
    qed
    from first later next_call show ?thesis by blast
  qed
  from none some book show ?thesis by blast
qed



theorem C2_assign_lowest_idle_witness:
  "(\<exists>r\<in>set (getAllRobots example_fleet). robot_status r = IDLE) \<and>
   map_option robot_status (getRobot example_fleet ''robot-001'') = Some ASSIGNED \<and>
   fst (assignMissionToAvailableRobot example_fleet example_mission_b 3000) =
     Some \<lparr>robot_id = ''robot-002'', robot_status = ASSIGNED,
            currentMissionId = Some ''mission-0000000b'', robot_createdAt = 1000,
            lastUpdated = 3000,
            robot_listeners = [(''statusChanged'', FleetForwardStatusChanged),
                               (''missionCancelled'', FleetForwardMissionCancelled)]\<rparr> \<and>
   (\<exists>i r. getRobot example_fleet (fleet_robotId i) = Some r \<and> robot_status r = IDLE \<and>
      (\<forall>j r'. getRobot example_fleet (fleet_robotId j) = Some r' \<and> robot_status r' = IDLE
          \<longrightarrow> i \<le> j) \<and>
      assignMissionToAvailableRobot example_fleet example_mission_b 3000 =
        (Some (r\<lparr>robot_status := ASSIGNED, currentMissionId := Some (mission_id example_mission_b),
                 lastUpdated := 3000\<rparr>),
         example_fleet\<lparr>robots := AList.update (fleet_robotId i)
                (r\<lparr>robot_status := ASSIGNED, currentMissionId := Some (mission_id example_mission_b),
                   lastUpdated := 3000\<rparr>) (robots example_fleet)\<rparr>,
         [(''statusChanged'',
           StatusData (fleet_robotId i) ASSIGNED (Some (mission_id example_mission_b)))])) \<and>
   map_option robot_status
     (getRobot (fst (snd (assignMissionToAvailableRobot example_fleet example_mission_b 3000)))
        ''robot-002'') = Some ASSIGNED \<and>
   \<not> (\<exists>r\<in>set (getAllRobots example_busy_fleet). robot_status r = IDLE) \<and>
   assignMissionToAvailableRobot example_busy_fleet example_mission_b 3000
     = (None, example_busy_fleet, [])"
proof -
  note T' = C2_assign_lowest_idle [OF refl,
      of "[(InitializeFleet 1 (\<lambda>i. 1000), 1000),
           (AssignMissionToAvailableRobot example_mission_a, 2000)]" example_mission_b 3000]
  have B: "\<not> (\<exists>r\<in>set (getAllRobots example_busy_fleet). robot_status r = IDLE)"
    by code_simp
  with T' have K4: "assignMissionToAvailableRobot example_busy_fleet example_mission_b 3000
     = (None, example_busy_fleet, [])"
    by blast
  note T = C2_assign_lowest_idle [OF refl,
      of "[(InitializeFleet 3 (\<lambda>i. 1000), 1000),
           (AssignMissionToAvailableRobot example_mission_a, 2000)]" example_mission_b 3000]
  have A: "\<exists>r\<in>set (getAllRobots example_fleet). robot_status r = IDLE"
    by code_simp
  have K1: "map_option robot_status (getRobot example_fleet ''robot-001'') = Some ASSIGNED"
    by code_simp
  have K2: "fst (assignMissionToAvailableRobot example_fleet example_mission_b 3000) =
     Some \<lparr>robot_id = ''robot-002'', robot_status = ASSIGNED,
            currentMissionId = Some ''mission-0000000b'', robot_createdAt = 1000,
            lastUpdated = 3000,
            robot_listeners = [(''statusChanged'', FleetForwardStatusChanged),
                               (''missionCancelled'', FleetForwardMissionCancelled)]\<rparr>"
    by code_simp
  from T K2 have K3: "map_option robot_status
     (getRobot (fst (snd (assignMissionToAvailableRobot example_fleet example_mission_b 3000)))
        ''robot-002'') = Some ASSIGNED"
    by simp
  from T A K1 K2 K3 B K4 show ?thesis by blast
qed

section \<open>Fleet: a second initialisation\<close>

text \<open>
  C10. \<^verbatim>\<open>initializeFleet\<close> has no failing path. Called with \<open>m\<close> on a manager whose
  map holds the robots of the rounds \<open>1, \<dots>, n\<close> of an earlier call (in whatever state
  they are by now), it leaves \<open>max n m\<close> robots: those of the rounds \<open>1, \<dots>, m\<close> are
  new robots, IDLE and with \<^verbatim>\<open>currentMissionId\<close> null, created at the clock reading of
  their round, and those of the rounds \<open>m + 1, \<dots>, n\<close> are the robots that were
  there, unchanged.
\<close>

theorem C10_reinitialize:
  assumes "map fst (robots fm) = map fleet_robotId [1..<Suc n]"
  shows
    "map fst (robots (initializeFleet fm m clock)) = map fleet_robotId [1..<Suc (max n m)] \<and>
     length (getAllRobots (initializeFleet fm m clock)) = max n m \<and>
     (\<forall>i. 1 \<le> i \<and> i \<le> m \<longrightarrow>
        getRobot (initializeFleet fm m clock) (fleet_robotId i) =
          Some \<lparr>robot_id = fleet_robotId i, robot_status = IDLE, currentMissionId = None,
                 robot_createdAt = clock i, lastUpdated = clock i,
                 robot_listeners = [(''statusChanged'', FleetForwardStatusChanged),
                                    (''missionCancelled'', FleetForwardMissionCancelled)]\<rparr>) \<and>
     (\<forall>i. m < i \<and> i \<le> n \<longrightarrow>
        getRobot (initializeFleet fm m clock) (fleet_robotId i) = getRobot fm (fleet_robotId i))"
proof -
  let ?rs = "foldl (initializeFleet_round clock) (robots fm) [1..<Suc m]"
  have r: "robots (initializeFleet fm m clock) = ?rs"
    by (simp add: initializeFleet_def del: upt_Suc)
  have keys: "map fst ?rs = map fleet_robotId [1..<Suc (max n m)]"
    by (rule rounds_keys [OF assms])
  then have "length (map fst ?rs) = max n m"
    by (simp only: length_map length_upt diff_Suc_1)
  then have len: "length (map snd ?rs) = max n m" by simp
  have fresh: "map_of ?rs (fleet_robotId i) = Some (roundRobot clock i)" if "1 \<le> i \<and> i \<le> m" for i
    unfolding rounds_values using that by simp
  have old: "map_of ?rs (fleet_robotId i) = map_of (robots fm) (fleet_robotId i)" if "m < i \<and> i \<le> n" for i
    unfolding rounds_values using that by simp
  from keys len fresh old show ?thesis
    unfolding getRobot_def getAllRobots_def r roundRobot_def by blast
qed

theorem C10_reinitialize_witness:
  "map fst (robots example_assigned_fleet) = map fleet_robotId [1..<Suc 3] \<and>
   map_option currentMissionId (getRobot example_assigned_fleet ''robot-001'')
     = Some (Some ''mission-0000000a'') \<and>
   length (getAllRobots (initializeFleet example_assigned_fleet 2 (\<lambda>i. 5000))) = max 3 2 \<and>
   getRobot (initializeFleet example_assigned_fleet 2 (\<lambda>i. 5000)) (fleet_robotId 1) =
     Some \<lparr>robot_id = fleet_robotId 1, robot_status = IDLE, currentMissionId = None,
            robot_createdAt = 5000, lastUpdated = 5000,
            robot_listeners = [(''statusChanged'', FleetForwardStatusChanged),
                               (''missionCancelled'', FleetForwardMissionCancelled)]\<rparr> \<and>
   fleet_robotId 1 = ''robot-001'' \<and>
   getRobot (initializeFleet example_assigned_fleet 2 (\<lambda>i. 5000)) (fleet_robotId 3) =
     getRobot example_assigned_fleet (fleet_robotId 3) \<and>
   getRobot example_assigned_fleet (fleet_robotId 3) =
     Some \<lparr>robot_id = ''robot-003'', robot_status = ASSIGNED,
            currentMissionId = Some ''mission-0000000c'', robot_createdAt = 1000,
            lastUpdated = 2000,
            robot_listeners = [(''statusChanged'', FleetForwardStatusChanged),
                               (''missionCancelled'', FleetForwardMissionCancelled)]\<rparr> \<and>
   length (getAllRobots (initializeFleet example_assigned_fleet 5 (\<lambda>i. 5000))) = max 3 5"
proof -
  have H: "map fst (robots example_assigned_fleet) = map fleet_robotId [1..<Suc 3]"
    by code_simp
  note T2 = C10_reinitialize [OF H, of 2 "\<lambda>i. 5000"]
  note T5 = C10_reinitialize [OF H, of 5 "\<lambda>i. 5000"]
  have K1: "map_option currentMissionId (getRobot example_assigned_fleet ''robot-001'')
     = Some (Some ''mission-0000000a'')"
    by code_simp
  have K2: "fleet_robotId 1 = ''robot-001''"
    by code_simp
  have K3: "getRobot example_assigned_fleet (fleet_robotId 3) =
     Some \<lparr>robot_id = ''robot-003'', robot_status = ASSIGNED,
            currentMissionId = Some ''mission-0000000c'', robot_createdAt = 1000,
            lastUpdated = 2000,
            robot_listeners = [(''statusChanged'', FleetForwardStatusChanged),
                               (''missionCancelled'', FleetForwardMissionCancelled)]\<rparr>"
    by code_simp
  have A1: "1 \<le> (1::nat) \<and> (1::nat) \<le> 2" and A3: "2 < (3::nat) \<and> (3::nat) \<le> 3" by simp_all
  from T2 A1 have F1: "getRobot (initializeFleet example_assigned_fleet 2 (\<lambda>i. 5000)) (fleet_robotId 1) =
     Some \<lparr>robot_id = fleet_robotId 1, robot_status = IDLE, currentMissionId = None,
            robot_createdAt = 5000, lastUpdated = 5000,
            robot_listeners = [(''statusChanged'', FleetForwardStatusChanged),
                               (''missionCancelled'', FleetForwardMissionCancelled)]\<rparr>"
    by blast
  from T2 A3 have F3: "getRobot (initializeFleet example_assigned_fleet 2 (\<lambda>i. 5000)) (fleet_robotId 3) =
     getRobot example_assigned_fleet (fleet_robotId 3)"
    by blast
  from T2 have L2: "length (getAllRobots (initializeFleet example_assigned_fleet 2 (\<lambda>i. 5000))) = max 3 2"
    by blast
  from T5 have L5: "length (getAllRobots (initializeFleet example_assigned_fleet 5 (\<lambda>i. 5000))) = max 3 5"
    by blast
  from H K1 K2 K3 F1 F3 L2 L5 show ?thesis by blast
qed

section \<open>Engine lifecycle\<close>

text \<open>
  C9 as stated fails in its second half: \<^verbatim>\<open>stop()\<close> on an engine that is not running
  logs a warning and returns; nothing is thrown and nothing changes.
\<close>

theorem C9_counterexample:
  "isSimulationRunning (engine (SimulationEngine_new FleetManager_new MissionManager_new)) = False \<and>
   SimulationEngine_stop (engine (SimulationEngine_new FleetManager_new MissionManager_new))
     = (Return (), engine (SimulationEngine_new FleetManager_new MissionManager_new), [])"
  by (simp add: SimulationEngine_new_def SimulationEngine_stop_def)

text \<open>
  C9, amended. \<^verbatim>\<open>start()\<close> on an engine that is already running throws (the
  already-running error) and leaves the engine as it is; \<^verbatim>\<open>stop()\<close> on an engine that
  is not running throws nothing: it returns normally, emits nothing and leaves the engine
  as it is.
\<close>

theorem C9_start_throws_stop_returns:
  "(isSimulationRunning e \<longrightarrow> SimulationEngine_start e = (Throw AlreadyRunning, e, [])) \<and>
   (\<not> isSimulationRunning e \<longrightarrow> SimulationEngine_stop e = (Return (), e, []))"
  by (simp add: SimulationEngine_start_def SimulationEngine_stop_def)

theorem C9_start_throws_stop_returns_witness:
  "isSimulationRunning
     (fst (snd (SimulationEngine_start
        (engine (SimulationEngine_new FleetManager_new MissionManager_new))))) \<and>
   SimulationEngine_start
     (fst (snd (SimulationEngine_start
        (engine (SimulationEngine_new FleetManager_new MissionManager_new)))))
     = (Throw AlreadyRunning,
        fst (snd (SimulationEngine_start
          (engine (SimulationEngine_new FleetManager_new MissionManager_new)))), []) \<and>
   \<not> isSimulationRunning (engine (SimulationEngine_new FleetManager_new MissionManager_new)) \<and>
   SimulationEngine_stop (engine (SimulationEngine_new FleetManager_new MissionManager_new))
     = (Return (), engine (SimulationEngine_new FleetManager_new MissionManager_new), [])"
  using
    C9_start_throws_stop_returns [of "fst (snd (SimulationEngine_start
        (engine (SimulationEngine_new FleetManager_new MissionManager_new))))"]
    C9_start_throws_stop_returns [of
        "engine (SimulationEngine_new FleetManager_new MissionManager_new)"]
  by (simp add: SimulationEngine_new_def SimulationEngine_start_def)


section \<open>Cancellation of a mission in flight\<close>

lemma cancel_present:
  assumes "map_of mm mid = Some mission"
  shows "MissionManager_cancelMission mm mid now =
           (Return (),
            AList.update mid
              (if mission_status mission = completed \<or> mission_status mission = cancelled
               then mission
               else mission\<lparr>mission_status := cancelled, cancelledAt := Some now\<rparr>) mm)"
  using assms by (simp add: MissionManager_cancelMission_def update_triv)

text \<open>
  C5, amended. Let a robot of the fleet be DELIVERING and bound to a mission that the
  mission registry holds, with the listeners in place as the constructors leave them (the
  forwarders of \<^verbatim>\<open>initializeFleet\<close> on the robot, the handlers of the engine's
  constructor on the fleet manager). Then \<^verbatim>\<open>cancelRobotMission(robotId)\<close> returns true
  without an exception; afterwards the robot is IDLE with \<^verbatim>\<open>currentMissionId\<close> null, and
  the mission is \<open>cancelled\<close> with \<^verbatim>\<open>cancelledAt\<close> set to the time of the call, unless
  it was already \<open>completed\<close> or \<open>cancelled\<close>, in which case it is left as it was.
\<close>

theorem C5_cancel_in_flight:
  assumes robot: "getRobot (fleetManager s) rid = Some r"
    and delivering: "robot_status r = DELIVERING"
    and bound: "currentMissionId r = Some mid"
    and mission: "getMission (missionManager s) mid = Some mission"
    and robot_wired:
      "listenersFor (robot_listeners r) ''missionCancelled'' = [FleetForwardMissionCancelled]"
      "listenersFor (robot_listeners r) ''statusChanged'' = [FleetForwardStatusChanged]"
    and engine_wired:
      "listenersFor (fleet_listeners (fleetManager s)) ''robotMissionCancelled''
         = [EngineOnRobotMissionCancelled]"
      "listenersFor (fleet_listeners (fleetManager s)) ''robotStatusChanged''
         = [EngineOnRobotStatusChanged]"
  shows
    "fst (System_cancelRobotMission s rid now) = Return True \<and>
     getRobot (fleetManager (snd (System_cancelRobotMission s rid now))) rid =
       Some (r\<lparr>robot_status := IDLE, currentMissionId := None, lastUpdated := now\<rparr>) \<and>
     getMission (missionManager (snd (System_cancelRobotMission s rid now))) mid =
       Some (if mission_status mission = completed \<or> mission_status mission = cancelled
             then mission
             else mission\<lparr>mission_status := cancelled, cancelledAt := Some now\<rparr>)"
proof -
  let ?r' = "r\<lparr>robot_status := IDLE, currentMissionId := None, lastUpdated := now\<rparr>"
  let ?fm' = "(fleetManager s)\<lparr>robots := AList.update rid ?r' (robots (fleetManager s))\<rparr>"
  let ?m' = "if mission_status mission = completed \<or> mission_status mission = cancelled
             then mission
             else mission\<lparr>mission_status := cancelled, cancelledAt := Some now\<rparr>"
  let ?mm' = "AList.update mid ?m' (missionManager s)"
  let ?cancelled = "(''missionCancelled'', CancelData (robot_id r) (Some mid))"
  let ?changed = "(''statusChanged'', StatusData (robot_id r) IDLE None)"
  let ?s1 = "s\<lparr>fleetManager := ?fm'\<rparr>"
  let ?s2 = "engine_emit (''missionCancelled'', CancelData (robot_id r) (Some mid))
               (?s1\<lparr>missionManager := ?mm'\<rparr>)"
  let ?s3 = "engine_emit (''robotStatusChanged'', StatusData (robot_id r) IDLE None) ?s2"
  from robot have look: "map_of (robots (fleetManager s)) rid = Some r"
    by (simp add: getRobot_def)
  from delivering bound have rc:
    "Robot_cancelCurrentMission r now = (Return (), ?r', [?cancelled, ?changed])"
    by (simp add: Robot_cancelCurrentMission_def updateTimestamp_def Let_def)
  from look rc have fc:
    "cancelRobotMission (fleetManager s) rid now = (True, ?fm', [?cancelled, ?changed])"
    by (simp add: cancelRobotMission_def)
  have get': "getRobot ?fm' rid = Some ?r'"
    by (simp add: getRobot_def update_conv')
  from mission have "map_of (missionManager ?s1) mid = Some mission"
    by (simp add: getMission_def)
  then have cm: "MissionManager_cancelMission (missionManager ?s1) mid now = (Return (), ?mm')"
    by (simp add: cancel_present)
  from engine_wired(1) cm have e1:
    "fleet_emit (''robotMissionCancelled'', CancelData (robot_id r) (Some mid)) now ?s1
       = (Return (), ?s2)"
    by (simp add: fleet_emit_def)
  from robot_wired(1) e1 have r1: "robot_emit ?r' ?cancelled now ?s1 = (Return (), ?s2)"
    by (simp add: robot_emit_def)
  from engine_wired(2) have e2:
    "fleet_emit (''robotStatusChanged'', StatusData (robot_id r) IDLE None) now ?s2
       = (Return (), ?s3)"
    by (simp add: fleet_emit_def engine_emit_def)
  from robot_wired(2) e2 have r2: "robot_emit ?r' ?changed now ?s2 = (Return (), ?s3)"
    by (simp add: robot_emit_def)
  from r1 r2 have "robot_emits ?r' [?cancelled, ?changed] now ?s1 = (Return (), ?s3)"
    by simp
  with fc get' have res: "System_cancelRobotMission s rid now = (Return True, ?s3)"
    by (simp add: System_cancelRobotMission_def)
  have "getRobot (fleetManager ?s3) rid = Some ?r'"
    using get' by (simp add: engine_emit_def)
  moreover have "getMission (missionManager ?s3) mid = Some ?m'"
    by (simp add: engine_emit_def getMission_def update_conv')
  ultimately show ?thesis
    unfolding res by simp
qed


text \<open>
  C5 as stated fails when the bound mission is already \<open>completed\<close>: the state below is
  reached by calls that all succeed (the mission manager completes the mission while the
  robot is still DELIVERING); \<^verbatim>\<open>cancelMission\<close> then returns at its guard and the
  mission stays \<open>completed\<close>, with no \<^verbatim>\<open>cancelledAt\<close>.
\<close>

theorem C5_counterexample:
  "map_option robot_status (getRobot (fleetManager example_system_completed) ''robot-001'')
     = Some DELIVERING \<and>
   map_option currentMissionId (getRobot (fleetManager example_system_completed) ''robot-001'')
     = Some (Some ''mission-0000000a'') \<and>
   map_option mission_status
     (getMission (missionManager example_system_completed) ''mission-0000000a'')
     = Some completed \<and>
   fleet_listeners (fleetManager example_system_completed)
     = fleet_listeners (fleetManager (SimulationEngine_new FleetManager_new MissionManager_new)) \<and>
   fst (System_cancelRobotMission example_system_completed ''robot-001'' 9000) = Return True \<and>
   map_option mission_status
     (getMission
        (missionManager (snd (System_cancelRobotMission example_system_completed ''robot-001'' 9000)))
        ''mission-0000000a'')
     = Some completed \<and>
   map_option cancelledAt
     (getMission
        (missionManager (snd (System_cancelRobotMission example_system_completed ''robot-001'' 9000)))
        ''mission-0000000a'')
     = Some None"
  by code_simp

theorem C5_cancel_in_flight_witness:
  "getRobot (fleetManager example_system_in_progress) ''robot-001'' =
     Some \<lparr>robot_id = ''robot-001'', robot_status = DELIVERING,
            currentMissionId = Some ''mission-0000000a'', robot_createdAt = 1000,
            lastUpdated = 4000,
            robot_listeners = [(''statusChanged'', FleetForwardStatusChanged),
                               (''missionCancelled'', FleetForwardMissionCancelled)]\<rparr> \<and>
   map_option mission_status
     (getMission (missionManager example_system_in_progress) ''mission-0000000a'')
     = Some in_progress \<and>
   fst (System_cancelRobotMission example_system_in_progress ''robot-001'' 9000) = Return True \<and>
   getRobot (fleetManager (snd (System_cancelRobotMission example_system_in_progress ''robot-001'' 9000)))
       ''robot-001'' =
     Some \<lparr>robot_id = ''robot-001'', robot_status = IDLE,
            currentMissionId = None, robot_createdAt = 1000,
            lastUpdated = 9000,
            robot_listeners = [(''statusChanged'', FleetForwardStatusChanged),
                               (''missionCancelled'', FleetForwardMissionCancelled)]\<rparr> \<and>
   getMission
       (missionManager (snd (System_cancelRobotMission example_system_in_progress ''robot-001'' 9000)))
       ''mission-0000000a'' =
     Some \<lparr>mission_id = ''mission-0000000a'', mission_status = cancelled,
            mission_createdAt = 1500, assignedAt = Some 2000, startedAt = Some 3000,
            completedAt = None, cancelledAt = Some 9000, robotId = Some ''robot-001'',
            estimatedDuration = 180000\<rparr>"
proof -
  let ?r = "\<lparr>robot_id = ''robot-001'', robot_status = DELIVERING,
            currentMissionId = Some ''mission-0000000a'', robot_createdAt = 1000,
            lastUpdated = 4000,
            robot_listeners = [(''statusChanged'', FleetForwardStatusChanged),
                               (''missionCancelled'', FleetForwardMissionCancelled)]\<rparr>"
  let ?m = "\<lparr>mission_id = ''mission-0000000a'', mission_status = in_progress,
            mission_createdAt = 1500, assignedAt = Some 2000, startedAt = Some 3000,
            completedAt = None, cancelledAt = None, robotId = Some ''robot-001'',
            estimatedDuration = 180000\<rparr>"
  have H1: "getRobot (fleetManager example_system_in_progress) ''robot-001'' = Some ?r"
    by code_simp
  have H2: "robot_status ?r = DELIVERING" and H3: "currentMissionId ?r = Some ''mission-0000000a''"
    by simp_all
  have H4: "getMission (missionManager example_system_in_progress) ''mission-0000000a'' = Some ?m"
    by code_simp
  have H5: "listenersFor (robot_listeners ?r) ''missionCancelled'' = [FleetForwardMissionCancelled]"
    and H6: "listenersFor (robot_listeners ?r) ''statusChanged'' = [FleetForwardStatusChanged]"
    by (simp_all add: listenersFor_def)
  have H7: "listenersFor (fleet_listeners (fleetManager example_system_in_progress))
              ''robotMissionCancelled'' = [EngineOnRobotMissionCancelled]"
    and H8: "listenersFor (fleet_listeners (fleetManager example_system_in_progress))
              ''robotStatusChanged'' = [EngineOnRobotStatusChanged]"
    by code_simp+
  note T = C5_cancel_in_flight [OF H1 H2 H3 H4 H5 H6 H7 H8, of 9000]
  from H4 have K: "map_option mission_status
     (getMission (missionManager example_system_in_progress) ''mission-0000000a'')
     = Some in_progress"
    by simp
  from T H1 K show ?thesis by simp
qed

end
